theory Spec2Isabelle
  imports Main "HOL-Library.Word" "HOL-Library.Multiset" "HOL-Library.Log_Nat"
begin

section \<open>The node-order plugin (pkg/scheduler/plugins/nodeorder/nodeorder.go)\<close>

text \<open>
  The plugin scores a (task, node) pair by a weighted sum of four priorities of the
  Kubernetes scheduler and keeps a per-session index \<open>nodeMap\<close> of node states in step
  with the session's allocate and deallocate events. The closures of \<open>OnSessionOpen\<close>
  are modelled as functions of the variables they capture.
\<close>

subsection \<open>Numbers: Go's \<open>int\<close> and \<open>float64\<close>\<close>

text \<open>
  Go's \<open>int\<close> is the 64-bit two's complement integer of the 64-bit platforms the
  scheduler is built for: \<open>*\<close> wraps around, \<open>sint\<close> reads the value.
\<close>

type_synonym go_int = "64 word"

text \<open>
  Every \<open>float64\<close> of the scoring function is the conversion of an \<open>int\<close> or a sum of
  such values, hence a finite double whose value is a whole number of magnitude far
  below the overflow threshold. Such a double is represented by the integer it
  denotes. \<open>round_f64\<close> is IEEE 754 rounding to the nearest double (53 significant
  bits), ties to the even significand; conversion and addition round the exact result.
\<close>

type_synonym f64 = int

definition round_mag :: "nat \<Rightarrow> nat" where
  "round_mag m =
     (if m < 2 ^ 53 then m
      else let ulp = 2 ^ (floorlog 2 m - 53); q = m div ulp; r = m mod ulp
           in (if 2 * r < ulp then q
               else if ulp < 2 * r then q + 1
               else if even q then q else q + 1) * ulp)"

definition round_f64 :: "int \<Rightarrow> f64" where
  "round_f64 x = (if x < 0 then - int (round_mag (nat (- x))) else int (round_mag (nat x)))"

definition float64 :: "go_int \<Rightarrow> f64" where
  "float64 n = round_f64 (sint n)"

definition f64_add :: "f64 \<Rightarrow> f64 \<Rightarrow> f64" where
  "f64_add a b = round_f64 (a + b)"

subsection \<open>Data\<close>

type_synonym error = string

text \<open>
  \<open>v1.Pod\<close>: the fields the plugin reads (\<open>Namespace\<close>, \<open>Name\<close>,
  \<open>Spec.NodeName\<close>), the pod's identity and its resource request. The resource vector
  \<open>'r\<close> is any type with an addition and a subtraction that cancel.
\<close>

record 'r Pod =
  Namespace :: string
  PodName :: string
  UID :: string
  Spec_NodeName :: string
  Requests :: 'r

datatype v1_Node = V1Node (ObjectName: string)

text \<open>
  \<open>api.TaskInfo\<close> and \<open>api.NodeInfo\<close> of the session, with the fields the plugin reads.
  Modelled from the spec: the accessor \<open>NodeInfo.Pods()\<close> is missing; the spec (3) has a
  node carry its currently bound tasks, and \<open>Pods\<close> is the list of their pods.
\<close>

record 'r TaskInfo =
  NodeName :: string
  Pod :: "'r Pod"

record 'r api_NodeInfo =
  Name :: string
  Node :: v1_Node
  Pods :: "'r Pod list"

record 'r Event =
  Task :: "'r TaskInfo"

text \<open>\<open>schedulerapi.HostPriority\<close>.\<close>

record HostPriority =
  Host :: string
  Score :: go_int

subsection \<open>\<open>getInterPodAffinityScore\<close>\<close>

fun getInterPodAffinityScore :: "string \<Rightarrow> HostPriority list \<Rightarrow> go_int" where
  "getInterPodAffinityScore name [] = 0"
| "getInterPodAffinityScore name (hostPriority # interPodAffinityScore) =
     (if Host hostPriority = name then Score hostPriority
      else getInterPodAffinityScore name interPodAffinityScore)"

subsection \<open>\<open>cachedNodeInfo.GetNodeInfo\<close>\<close>

text \<open>
  \<open>session.Nodes\<close> is a Go map. It is kept as an association list: \<open>map_of\<close> is the
  lookup \<open>Nodes[name]\<close>, and the order of the list is the order in which the
  \<open>range\<close> loop of this call visits the entries (Go leaves that order unspecified).
  The inner loop over the pods of one node and the outer loop over the nodes are the
  two recursive functions; the \<open>return\<close> inside the inner loop leaves both.
\<close>

fun hasUnassignedPod :: "'r Pod list \<Rightarrow> bool" where
  "hasUnassignedPod [] = False"
| "hasUnassignedPod (pod # pods) =
     (if Spec_NodeName pod = [] then True else hasUnassignedPod pods)"

fun firstNodeWithUnassignedPod :: "(string \<times> 'r api_NodeInfo) list \<Rightarrow> v1_Node option" where
  "firstNodeWithUnassignedPod [] = None"
| "firstNodeWithUnassignedPod ((key, cacheNode) # rest) =
     (if hasUnassignedPod (Pods cacheNode) then Some (Node cacheNode)
      else firstNodeWithUnassignedPod rest)"

definition GetNodeInfo :: "(string \<times> 'r api_NodeInfo) list \<Rightarrow> string \<Rightarrow> error + v1_Node" where
  "GetNodeInfo Nodes name =
     (case map_of Nodes name of
        None \<Rightarrow>
          (case firstNodeWithUnassignedPod Nodes of
             Some n \<Rightarrow> Inr n
           | None \<Rightarrow> Inl (''failed to find node <'' @ name @ ''>''))
      | Some node \<Rightarrow> Inr (Node node))"

subsection \<open>Weight configuration: \<open>calculateWeight\<close>\<close>

definition NodeAffinityWeight :: string where
  "NodeAffinityWeight = ''nodeaffinity.weight''"

definition PodAffinityWeight :: string where
  "PodAffinityWeight = ''podaffinity.weight''"

definition LeastRequestedWeight :: string where
  "LeastRequestedWeight = ''leastrequested.weight''"

definition BalancedResourceWeight :: string where
  "BalancedResourceWeight = ''balancedresource.weight''"

record priorityWeight =
  leastReqWeight :: go_int
  nodeAffinityWeight :: go_int
  podAffinityWeight :: go_int
  balancedRescourceWeight :: go_int

type_synonym Arguments = "string \<rightharpoonup> string"

text \<open>
  Modelled from the spec: \<open>framework.Arguments.GetInt\<close> is not among the source files.
  The spec (4.1, 6): the argument bag maps string keys to values; a key that is
  present and parseable as an integer yields that integer, any other key leaves the
  value it found (absent or unparseable: the default stands), and nothing fails.
  \<open>Atoi\<close> is the integer parser; \<open>cur\<close> is the value behind the pointer, and the
  result is the value behind it afterwards.
\<close>

definition GetInt :: "(string \<Rightarrow> go_int option) \<Rightarrow> Arguments \<Rightarrow> go_int \<Rightarrow> string \<Rightarrow> go_int" where
  "GetInt Atoi args cur key =
     (case args key of
        None \<Rightarrow> cur
      | Some argv \<Rightarrow> (case Atoi argv of None \<Rightarrow> cur | Some v \<Rightarrow> v))"

definition calculateWeight :: "(string \<Rightarrow> go_int option) \<Rightarrow> Arguments \<Rightarrow> priorityWeight" where
  "calculateWeight Atoi args =
     (let weight = \<lparr>leastReqWeight = 1, nodeAffinityWeight = 1,
                     podAffinityWeight = 1, balancedRescourceWeight = 1\<rparr>;
          weight = weight\<lparr>nodeAffinityWeight :=
                     GetInt Atoi args (nodeAffinityWeight weight) NodeAffinityWeight\<rparr>;
          weight = weight\<lparr>podAffinityWeight :=
                     GetInt Atoi args (podAffinityWeight weight) PodAffinityWeight\<rparr>;
          weight = weight\<lparr>leastReqWeight :=
                     GetInt Atoi args (leastReqWeight weight) LeastRequestedWeight\<rparr>;
          weight = weight\<lparr>balancedRescourceWeight :=
                     GetInt Atoi args (balancedRescourceWeight weight) BalancedResourceWeight\<rparr>
      in weight)"

subsection \<open>The node state index and the task placement view\<close>

text \<open>
  \<open>cache.NodeInfo\<close>, the type of the index entries, and its operations \<open>NewNodeInfo\<close>,
  \<open>SetNode\<close>, \<open>AddPod\<close> and \<open>RemovePod\<close> are not among the source files; they follow
  the spec's index entry \<open>{node, boundTasks, aggregateUsage}\<close> (3, 4.2).
\<close>

text \<open>
  Modelled from the spec: a task reference, the element of \<open>boundTasks\<close>, is missing.
  It is the pod's identity with its request, which no handler changes.
\<close>

type_synonym 'r TaskRef = "string \<times> 'r"

definition taskRef :: "'r Pod \<Rightarrow> 'r TaskRef" where
  "taskRef pod = (UID pod, Requests pod)"

text \<open>
  Modelled from the spec: the entry type \<open>cache.NodeInfo\<close> is missing. The spec (3): the
  node, the tasks bound to it and the aggregate usage. \<open>boundTasks\<close> counts references:
  bind adds one and unbind takes one away, the only reading under which the spec's
  bind keeps \<open>aggregateUsage\<close> the sum over \<open>boundTasks\<close> for every input.
\<close>

record 'r cache_NodeInfo =
  nodeRef :: "v1_Node option"
  boundTasks :: "'r TaskRef multiset"
  aggregateUsage :: 'r

text \<open>
  Modelled from the spec: \<open>NodeInfo.AddPod\<close> is missing. The spec (4.2): bind adds the
  task to \<open>boundTasks\<close> and its request to \<open>aggregateUsage\<close>.
\<close>

definition AddPod :: "'r::ab_group_add cache_NodeInfo \<Rightarrow> 'r Pod \<Rightarrow> 'r cache_NodeInfo" where
  "AddPod n pod =
     n\<lparr>boundTasks := add_mset (taskRef pod) (boundTasks n),
       aggregateUsage := aggregateUsage n + Requests pod\<rparr>"

text \<open>
  Modelled from the spec: \<open>NodeInfo.RemovePod\<close> is missing. The spec (4.2): unbind is
  the inverse of bind.
\<close>

definition RemovePod :: "'r::ab_group_add cache_NodeInfo \<Rightarrow> 'r Pod \<Rightarrow> 'r cache_NodeInfo" where
  "RemovePod n pod =
     n\<lparr>boundTasks := boundTasks n - {#taskRef pod#},
       aggregateUsage := aggregateUsage n - Requests pod\<rparr>"

text \<open>
  Modelled from the spec: \<open>cache.NewNodeInfo\<close> is missing. The spec (4.2): an entry is
  initialised with the tasks already bound and the usage accordingly; the pods are the
  arguments of the call.
\<close>

definition NewNodeInfo :: "'r::ab_group_add Pod list \<Rightarrow> 'r cache_NodeInfo" where
  "NewNodeInfo pods = foldl AddPod \<lparr>nodeRef = None, boundTasks = {#}, aggregateUsage = 0\<rparr> pods"

text \<open>
  Modelled from the spec: \<open>NodeInfo.SetNode\<close> is missing. It sets the entry's node
  reference.
\<close>

definition SetNode :: "'r cache_NodeInfo \<Rightarrow> v1_Node \<Rightarrow> 'r cache_NodeInfo" where
  "SetNode n v = n\<lparr>nodeRef := Some v\<rparr>"

text \<open>
  Modelled from the spec: \<open>util.PodLister\<close> is missing. The spec (3, 6): the lister
  resolves a task's current placement, the task's \<open>assignedNode\<close>, empty when unbound.
\<close>

type_synonym PodLister = "string \<Rightarrow> string"

text \<open>
  Modelled from the spec: \<open>PodLister.UpdateTask\<close> is missing. The spec (4.5):
  \<open>onAllocate\<close> sets the task's \<open>assignedNode\<close> to the node and \<open>onDeallocate\<close> clears
  it. \<open>UpdateTask\<close> records the placement and returns the task's pod carrying that
  node name.
\<close>

definition UpdateTask :: "PodLister \<Rightarrow> 'r TaskInfo \<Rightarrow> string \<Rightarrow> 'r Pod \<times> PodLister" where
  "UpdateTask lister task nodeName =
     ((Pod task)\<lparr>Spec_NodeName := nodeName\<rparr>, lister(UID (Pod task) := nodeName))"

subsection \<open>What the closures of \<open>OnSessionOpen\<close> capture, and what they do to the world\<close>

record 'r captured =
  weight :: priorityWeight
  pl :: PodLister
  ssn_Nodes :: "(string \<times> 'r api_NodeInfo) list"
  nodeMap :: "string \<rightharpoonup> 'r cache_NodeInfo"
  nodeSlice :: "v1_Node list"

datatype priority = LeastRequested | BalancedResource | NodeAffinity | InterPodAffinity

datatype logarg = StrArg string | F64Arg f64

text \<open>
  An effect is a call of one of the four priority functions or a line handed to glog
  (\<open>V4_Infof\<close> is \<open>glog.V(4).Infof\<close>).
\<close>

datatype effect =
    Call priority
  | Warningf string "logarg list"
  | V4_Infof string "logarg list"

text \<open>
  The four priority functions belong to the Kubernetes scheduler, not to this
  repository; they are parameters. Each returns an error or its result, and as a
  function it reads its arguments and changes nothing. The \<open>nil\<close> meta argument of the
  three map functions is a constant and is left out.
\<close>

record 'r priorities =
  LeastRequestedPriorityMap :: "'r Pod \<Rightarrow> 'r cache_NodeInfo \<Rightarrow> error + HostPriority"
  BalancedResourceAllocationMap :: "'r Pod \<Rightarrow> 'r cache_NodeInfo \<Rightarrow> error + HostPriority"
  CalculateNodeAffinityPriorityMap :: "'r Pod \<Rightarrow> 'r cache_NodeInfo \<Rightarrow> error + HostPriority"
  NewInterPodAffinityPriority ::
    "(string \<Rightarrow> error + v1_Node) \<Rightarrow> (string \<times> 'r api_NodeInfo) list \<Rightarrow> PodLister \<Rightarrow> int \<Rightarrow>
     'r Pod \<Rightarrow> (string \<rightharpoonup> 'r cache_NodeInfo) \<Rightarrow> v1_Node list \<Rightarrow> error + HostPriority list"
  DefaultHardPodAffinitySymmetricWeight :: int

subsection \<open>The event handlers\<close>

definition AllocateFunc :: "'r::ab_group_add Event \<Rightarrow> 'r captured \<Rightarrow> effect list \<times> 'r captured" where
  "AllocateFunc event c =
     (let (pod, lister) = UpdateTask (pl c) (Task event) (NodeName (Task event));
          c = c\<lparr>pl := lister\<rparr>;
          nodeName = NodeName (Task event)
      in case nodeMap c nodeName of
           None \<Rightarrow>
             ([Warningf ''node order, update pod %s/%s allocate to NOT EXIST node [%s]''
                 [StrArg (Namespace pod), StrArg (PodName pod), StrArg nodeName]], c)
         | Some node \<Rightarrow>
             ([V4_Infof ''node order, update pod %s/%s allocate to node [%s]''
                 [StrArg (Namespace pod), StrArg (PodName pod), StrArg nodeName]],
              c\<lparr>nodeMap := (nodeMap c)(nodeName \<mapsto> AddPod node pod)\<rparr>))"

definition DeallocateFunc :: "'r::ab_group_add Event \<Rightarrow> 'r captured \<Rightarrow> effect list \<times> 'r captured" where
  "DeallocateFunc event c =
     (let (pod, lister) = UpdateTask (pl c) (Task event) [];
          c = c\<lparr>pl := lister\<rparr>;
          nodeName = NodeName (Task event)
      in case nodeMap c nodeName of
           None \<Rightarrow>
             ([Warningf ''node order, update pod %s/%s allocate from NOT EXIST node [%s]''
                 [StrArg (Namespace pod), StrArg (PodName pod), StrArg nodeName]], c)
         | Some node \<Rightarrow>
             ([V4_Infof ''node order, update pod %s/%s deallocate from node [%s]''
                 [StrArg (Namespace pod), StrArg (PodName pod), StrArg nodeName]],
              c\<lparr>nodeMap := (nodeMap c)(nodeName \<mapsto> RemovePod node pod)\<rparr>))"

subsection \<open>The composite scorer \<open>nodeOrderFn\<close>\<close>

text \<open>
  The result is Go's pair \<open>(float64, error)\<close>, \<open>None\<close> for \<open>nil\<close>, then the effects in
  the order they happen, then the captured variables as the call leaves them.
\<close>

definition nodeOrderFn ::
  "'r::ab_group_add priorities \<Rightarrow> 'r TaskInfo \<Rightarrow> 'r api_NodeInfo \<Rightarrow> 'r captured \<Rightarrow>
   (f64 \<times> error option) \<times> effect list \<times> 'r captured" where
  "nodeOrderFn P task node c =
     (let (nodeInfo, t0) =
            (case nodeMap c (Name node) of
               None \<Rightarrow>
                 (SetNode (NewNodeInfo (Pods node)) (Node node),
                  [Warningf ''node order, generate node info for %s at NodeOrderFn is unexpected''
                     [StrArg (Name node)]])
             | Some found \<Rightarrow> (found, []));
          score = 0
      in case LeastRequestedPriorityMap P (Pod task) nodeInfo of
           Inl err \<Rightarrow>
             ((0, Some err),
              t0 @ [Call LeastRequested,
                    Warningf ''Least Requested Priority Failed because of Error: %v'' [StrArg err]],
              c)
         | Inr host \<Rightarrow>
     (let score = f64_add score (float64 (Score host * leastReqWeight (weight c)))
      in case BalancedResourceAllocationMap P (Pod task) nodeInfo of
           Inl err \<Rightarrow>
             ((0, Some err),
              t0 @ [Call LeastRequested, Call BalancedResource,
                    Warningf ''Balanced Resource Allocation Priority Failed because of Error: %v''
                      [StrArg err]],
              c)
         | Inr host \<Rightarrow>
     (let score = f64_add score (float64 (Score host * balancedRescourceWeight (weight c)))
      in case CalculateNodeAffinityPriorityMap P (Pod task) nodeInfo of
           Inl err \<Rightarrow>
             ((0, Some err),
              t0 @ [Call LeastRequested, Call BalancedResource, Call NodeAffinity,
                    Warningf ''Calculate Node Affinity Priority Failed because of Error: %v''
                      [StrArg err]],
              c)
         | Inr host \<Rightarrow>
     (let score = f64_add score (float64 (Score host * nodeAffinityWeight (weight c)));
          mapFn = NewInterPodAffinityPriority P (GetNodeInfo (ssn_Nodes c)) (ssn_Nodes c) (pl c)
                    (DefaultHardPodAffinitySymmetricWeight P)
      in case mapFn (Pod task) (nodeMap c) (nodeSlice c) of
           Inl err \<Rightarrow>
             ((0, Some err),
              t0 @ [Call LeastRequested, Call BalancedResource, Call NodeAffinity,
                    Call InterPodAffinity,
                    Warningf ''Calculate Inter Pod Affinity Priority Failed because of Error: %v''
                      [StrArg err]],
              c)
         | Inr interPodAffinityScore \<Rightarrow>
     (let hostScore = getInterPodAffinityScore (Name node) interPodAffinityScore;
          score = f64_add score (float64 (hostScore * podAffinityWeight (weight c)))
      in ((score, None),
          t0 @ [Call LeastRequested, Call BalancedResource, Call NodeAffinity,
                Call InterPodAffinity,
                V4_Infof ''Total Score for that node is: %d'' [F64Arg score]],
          c))))))"

subsection \<open>Notions the properties are stated with\<close>

text \<open>The \<open>float64\<close> sum of a list of terms, added from the left to the initial \<open>0.0\<close>.\<close>

definition f64_sum :: "f64 list \<Rightarrow> f64" where
  "f64_sum xs = foldl f64_add 0 xs"

text \<open>The priority functions a trace of effects calls, in order.\<close>

fun calls :: "effect list \<Rightarrow> priority list" where
  "calls [] = []"
| "calls (Call p # es) = p # calls es"
| "calls (Warningf fmt as # es) = calls es"
| "calls (V4_Infof fmt as # es) = calls es"

text \<open>The entry \<open>nodeOrderFn\<close> builds for a node that \<open>nodeMap\<close> does not know.\<close>

definition synthesized :: "'r::ab_group_add api_NodeInfo \<Rightarrow> 'r cache_NodeInfo" where
  "synthesized node = SetNode (NewNodeInfo (Pods node)) (Node node)"

text \<open>The entry a call scores against: the index's entry when there is one.\<close>

definition scoredEntry :: "'r::ab_group_add captured \<Rightarrow> 'r api_NodeInfo \<Rightarrow> 'r cache_NodeInfo" where
  "scoredEntry c node =
     (case nodeMap c (Name node) of None \<Rightarrow> synthesized node | Some found \<Rightarrow> found)"

text \<open>The call of the inter-pod-affinity priority as \<open>nodeOrderFn\<close> makes it.\<close>

definition interPodAffinity ::
  "'r priorities \<Rightarrow> 'r TaskInfo \<Rightarrow> 'r captured \<Rightarrow> error + HostPriority list" where
  "interPodAffinity P task c =
     NewInterPodAffinityPriority P (GetNodeInfo (ssn_Nodes c)) (ssn_Nodes c) (pl c)
       (DefaultHardPodAffinitySymmetricWeight P) (Pod task) (nodeMap c) (nodeSlice c)"

text \<open>
  The weight and the raw sub-score that belong to one priority, and the weight set
  with the weight of one priority replaced.
\<close>

definition weightOf :: "priority \<Rightarrow> priorityWeight \<Rightarrow> go_int" where
  "weightOf p w =
     (case p of
        LeastRequested \<Rightarrow> leastReqWeight w
      | BalancedResource \<Rightarrow> balancedRescourceWeight w
      | NodeAffinity \<Rightarrow> nodeAffinityWeight w
      | InterPodAffinity \<Rightarrow> podAffinityWeight w)"

definition setWeight :: "priority \<Rightarrow> go_int \<Rightarrow> priorityWeight \<Rightarrow> priorityWeight" where
  "setWeight p v w =
     (case p of
        LeastRequested \<Rightarrow> w\<lparr>leastReqWeight := v\<rparr>
      | BalancedResource \<Rightarrow> w\<lparr>balancedRescourceWeight := v\<rparr>
      | NodeAffinity \<Rightarrow> w\<lparr>nodeAffinityWeight := v\<rparr>
      | InterPodAffinity \<Rightarrow> w\<lparr>podAffinityWeight := v\<rparr>)"

definition rawScore ::
  "HostPriority \<Rightarrow> HostPriority \<Rightarrow> HostPriority \<Rightarrow> go_int \<Rightarrow> priority \<Rightarrow> go_int" where
  "rawScore h1 h2 h3 hostScore p =
     (case p of
        LeastRequested \<Rightarrow> Score h1
      | BalancedResource \<Rightarrow> Score h2
      | NodeAffinity \<Rightarrow> Score h3
      | InterPodAffinity \<Rightarrow> hostScore)"

text \<open>The invariant of the index: every entry's usage is the sum of the requests of its bound tasks.\<close>

definition entry_inv :: "'r::ab_group_add cache_NodeInfo \<Rightarrow> bool" where
  "entry_inv n \<longleftrightarrow> aggregateUsage n = sum_mset (image_mset snd (boundTasks n))"

definition index_inv :: "(string \<rightharpoonup> 'r::ab_group_add cache_NodeInfo) \<Rightarrow> bool" where
  "index_inv m \<longleftrightarrow> (\<forall>n \<in> ran m. entry_inv n)"

text \<open>One bind/unbind cycle: an allocate event and the matching deallocate event.\<close>

definition bindUnbind :: "'r::ab_group_add Event \<Rightarrow> 'r captured \<Rightarrow> 'r captured" where
  "bindUnbind event c = snd (DeallocateFunc event (snd (AllocateFunc event c)))"

subsection \<open>Concrete values for the examples\<close>

definition pod_on :: "string \<Rightarrow> string \<Rightarrow> int Pod" where
  "pod_on uid nodeName =
     \<lparr>Namespace = ''default'', PodName = uid, UID = uid, Spec_NodeName = nodeName, Requests = 2\<rparr>"

definition node_with :: "string \<Rightarrow> int Pod list \<Rightarrow> int api_NodeInfo" where
  "node_with name pods = \<lparr>Name = name, Node = V1Node name, Pods = pods\<rparr>"

definition event_for :: "string \<Rightarrow> string \<Rightarrow> int Event" where
  "event_for uid nodeName = \<lparr>Task = \<lparr>NodeName = nodeName, Pod = pod_on uid []\<rparr>\<rparr>"

text \<open>Priority functions with fixed outcomes.\<close>

definition fixed_priorities ::
  "error + go_int \<Rightarrow> error + go_int \<Rightarrow> error + go_int \<Rightarrow> error + HostPriority list \<Rightarrow> int priorities" where
  "fixed_priorities lr br na ip =
     \<lparr>LeastRequestedPriorityMap = (\<lambda>pod n. map_sum id (\<lambda>s. \<lparr>Host = [], Score = s\<rparr>) lr),
      BalancedResourceAllocationMap = (\<lambda>pod n. map_sum id (\<lambda>s. \<lparr>Host = [], Score = s\<rparr>) br),
      CalculateNodeAffinityPriorityMap = (\<lambda>pod n. map_sum id (\<lambda>s. \<lparr>Host = [], Score = s\<rparr>) na),
      NewInterPodAffinityPriority = (\<lambda>cn nl lister w pod m ns. ip),
      DefaultHardPodAffinitySymmetricWeight = 1\<rparr>"

text \<open>
  Priority functions that read the state they are given: the first scores a node by
  the number of tasks bound in its entry, the last scores node \<open>n1\<close> by whether the
  lister places task \<open>t1\<close> on node \<open>ghost\<close>.
\<close>

definition reading_priorities :: "int priorities" where
  "reading_priorities =
     \<lparr>LeastRequestedPriorityMap = (\<lambda>pod n. Inr \<lparr>Host = [], Score = of_nat (size (boundTasks n))\<rparr>),
      BalancedResourceAllocationMap = (\<lambda>pod n. Inr \<lparr>Host = [], Score = 0\<rparr>),
      CalculateNodeAffinityPriorityMap = (\<lambda>pod n. Inr \<lparr>Host = [], Score = 0\<rparr>),
      NewInterPodAffinityPriority =
        (\<lambda>cn nl lister w pod m ns.
           Inr [\<lparr>Host = ''n1'', Score = (if lister ''t1'' = ''ghost'' then 1 else 0)\<rparr>]),
      DefaultHardPodAffinitySymmetricWeight = 1\<rparr>"

definition weights :: "go_int \<Rightarrow> go_int \<Rightarrow> go_int \<Rightarrow> go_int \<Rightarrow> priorityWeight" where
  "weights lr br na pa =
     \<lparr>leastReqWeight = lr, nodeAffinityWeight = na, podAffinityWeight = pa,
      balancedRescourceWeight = br\<rparr>"

definition session_with ::
  "priorityWeight \<Rightarrow> (string \<rightharpoonup> int cache_NodeInfo) \<Rightarrow> int captured" where
  "session_with w m =
     \<lparr>weight = w, pl = (\<lambda>uid. []), ssn_Nodes = [], nodeMap = m, nodeSlice = []\<rparr>"

text \<open>An integer parser for the examples: it knows three numerals and rejects the rest.\<close>

definition decimal :: "string \<Rightarrow> go_int option" where
  "decimal argv =
     (if argv = ''0'' then Some 0 else if argv = ''2'' then Some 2
      else if argv = ''7'' then Some 7 else None)"

text \<open>
  Two visiting orders of one Go map: the same entries, each key once. Go picks the
  order of every \<open>range\<close> loop afresh, so two calls may see the session's nodes in two
  such orders although nothing has changed.
\<close>

definition sameMap :: "('k \<times> 'v) list \<Rightarrow> ('k \<times> 'v) list \<Rightarrow> bool" where
  "sameMap xs ys \<longleftrightarrow> distinct (map fst xs) \<and> distinct (map fst ys) \<and> set xs = set ys"

text \<open>
  Priority functions for the examples whose inter-pod-affinity priority looks up the
  empty node name through \<open>GetNodeInfo\<close>, as it does for a pod that is not assigned
  yet, and scores node \<open>n1\<close> by whether the lookup answers \<open>n1\<close>.
\<close>

definition lookup_priorities :: "int priorities" where
  "lookup_priorities =
     \<lparr>LeastRequestedPriorityMap = (\<lambda>pod n. Inr \<lparr>Host = [], Score = 0\<rparr>),
      BalancedResourceAllocationMap = (\<lambda>pod n. Inr \<lparr>Host = [], Score = 0\<rparr>),
      CalculateNodeAffinityPriorityMap = (\<lambda>pod n. Inr \<lparr>Host = [], Score = 0\<rparr>),
      NewInterPodAffinityPriority =
        (\<lambda>cn nl lister w pod m ns.
           Inr [\<lparr>Host = ''n1'', Score = (if cn [] = Inr (V1Node ''n1'') then 1 else 0)\<rparr>]),
      DefaultHardPodAffinitySymmetricWeight = 1\<rparr>"

section \<open>Properties\<close>

subsection \<open>\<open>getInterPodAffinityScore\<close>\<close>

text \<open>
  C5. For every candidate node name and every inter-pod-affinity result list, the score
  extracted for the candidate is the score of the first entry of the list whose host is
  the node's name, and it is 0 when no entry matches: a score, not an error.
\<close>

theorem getInterPodAffinityScore_first_match:
  "getInterPodAffinityScore name interPodAffinityScore =
     (case find (\<lambda>hostPriority. Host hostPriority = name) interPodAffinityScore of
        None \<Rightarrow> 0
      | Some hostPriority \<Rightarrow> Score hostPriority)"
  by (induction interPodAffinityScore) auto

theorem getInterPodAffinityScore_first_match_witness:
  "getInterPodAffinityScore ''n2''
     [\<lparr>Host = ''n1'', Score = 4\<rparr>, \<lparr>Host = ''n2'', Score = 7\<rparr>, \<lparr>Host = ''n2'', Score = 9\<rparr>] = 7
   \<and> getInterPodAffinityScore ''n3'' [\<lparr>Host = ''n1'', Score = 4\<rparr>] = 0"
  using getInterPodAffinityScore_first_match [of "''n2''"
      "[\<lparr>Host = ''n1'', Score = 4\<rparr>, \<lparr>Host = ''n2'', Score = 7\<rparr>, \<lparr>Host = ''n2'', Score = 9\<rparr>]"]
    getInterPodAffinityScore_first_match [of "''n3''" "[\<lparr>Host = ''n1'', Score = 4\<rparr>]"]
  by simp

subsection \<open>\<open>GetNodeInfo\<close>\<close>

lemma hasUnassignedPod_iff:
  "hasUnassignedPod pods \<longleftrightarrow> (\<exists>p \<in> set pods. Spec_NodeName p = [])"
  by (induction pods) auto

lemma firstNodeWithUnassignedPod_None:
  "firstNodeWithUnassignedPod Nodes = None \<longleftrightarrow>
     (\<forall>(k, cn) \<in> set Nodes. \<not> hasUnassignedPod (Pods cn))"
  by (induction Nodes rule: firstNodeWithUnassignedPod.induct) auto

lemma firstNodeWithUnassignedPod_first:
  "(\<forall>(k, cn) \<in> set before. \<not> hasUnassignedPod (Pods cn)) \<Longrightarrow>
   hasUnassignedPod (Pods cacheNode) \<Longrightarrow>
   firstNodeWithUnassignedPod (before @ (key, cacheNode) # rest) = Some (Node cacheNode)"
  by (induction before rule: firstNodeWithUnassignedPod.induct) auto

text \<open>
  C10. For every name queried through \<open>GetNodeInfo\<close>: a name present in the session's
  node map yields its node and no error; an absent name yields, without error, the
  first node in the order of the loop that hosts a pod with an empty node name; an
  error is returned exactly when the name is absent and no node hosts such a pod.
\<close>

theorem GetNodeInfo_lookup:
  "(map_of Nodes name = Some n \<longrightarrow> GetNodeInfo Nodes name = Inr (Node n)) \<and>
   (map_of Nodes name = None \<and> Nodes = before @ (key, cacheNode) # rest \<and>
      (\<forall>(k, cn) \<in> set before. \<forall>p \<in> set (Pods cn). Spec_NodeName p \<noteq> []) \<and>
      (\<exists>p \<in> set (Pods cacheNode). Spec_NodeName p = [])
    \<longrightarrow> GetNodeInfo Nodes name = Inr (Node cacheNode)) \<and>
   ((\<exists>e. GetNodeInfo Nodes name = Inl e) \<longleftrightarrow>
      map_of Nodes name = None \<and>
      (\<forall>(k, cn) \<in> set Nodes. \<forall>p \<in> set (Pods cn). Spec_NodeName p \<noteq> []))"
proof (intro conjI impI)
  assume "map_of Nodes name = Some n"
  then show "GetNodeInfo Nodes name = Inr (Node n)"
    by (simp add: GetNodeInfo_def)
next
  assume a: "map_of Nodes name = None \<and> Nodes = before @ (key, cacheNode) # rest \<and>
      (\<forall>(k, cn) \<in> set before. \<forall>p \<in> set (Pods cn). Spec_NodeName p \<noteq> []) \<and>
      (\<exists>p \<in> set (Pods cacheNode). Spec_NodeName p = [])"
  then have "firstNodeWithUnassignedPod (before @ (key, cacheNode) # rest) = Some (Node cacheNode)"
    by (intro firstNodeWithUnassignedPod_first) (auto simp: hasUnassignedPod_iff)
  moreover from a have "Nodes = before @ (key, cacheNode) # rest" and "map_of Nodes name = None"
    by blast+
  ultimately show "GetNodeInfo Nodes name = Inr (Node cacheNode)"
    unfolding GetNodeInfo_def by (simp only: option.case)
next
  show "(\<exists>e. GetNodeInfo Nodes name = Inl e) \<longleftrightarrow>
      map_of Nodes name = None \<and>
      (\<forall>(k, cn) \<in> set Nodes. \<forall>p \<in> set (Pods cn). Spec_NodeName p \<noteq> [])"
    using firstNodeWithUnassignedPod_None [of Nodes]
    by (auto simp: GetNodeInfo_def hasUnassignedPod_iff split: option.splits)
qed

theorem GetNodeInfo_lookup_witness:
  "GetNodeInfo [(''n1'', node_with ''n1'' [pod_on ''a'' ''n1'']),
                (''n2'', node_with ''n2'' [pod_on ''b'' []])] ''n1'' = Inr (V1Node ''n1'')
   \<and> GetNodeInfo [(''n1'', node_with ''n1'' [pod_on ''a'' ''n1'']),
                  (''n2'', node_with ''n2'' [pod_on ''b'' []])] ''n9'' = Inr (V1Node ''n2'')
   \<and> (\<exists>e. GetNodeInfo [(''n1'', node_with ''n1'' [pod_on ''a'' ''n1''])] ''n9'' = Inl e)"
  using GetNodeInfo_lookup [of
      "[(''n1'', node_with ''n1'' [pod_on ''a'' ''n1'']), (''n2'', node_with ''n2'' [pod_on ''b'' []])]"
      "''n1''" "node_with ''n1'' [pod_on ''a'' ''n1'']"]
    GetNodeInfo_lookup [of
      "[(''n1'', node_with ''n1'' [pod_on ''a'' ''n1'']), (''n2'', node_with ''n2'' [pod_on ''b'' []])]"
      "''n9''" undefined "[(''n1'', node_with ''n1'' [pod_on ''a'' ''n1''])]"
      "''n2''" "node_with ''n2'' [pod_on ''b'' []]" "[]"]
    GetNodeInfo_lookup [of "[(''n1'', node_with ''n1'' [pod_on ''a'' ''n1''])]" "''n9''"]
  by (simp add: node_with_def pod_on_def)

subsection \<open>\<open>calculateWeight\<close>\<close>

text \<open>
  C3. For every argument bag, \<open>calculateWeight\<close> returns a weight set in which each of
  the four recognised keys yields its parsed integer when the key is present and its
  value parses, and 1 otherwise; a key that is not one of the four has no effect on
  the result (whatever is stored under it), and the function has no failing path: it
  returns a weight set for every bag and every parser.
\<close>

theorem calculateWeight_parsed_or_default:
  "nodeAffinityWeight (calculateWeight Atoi args) =
     (case Option.bind (args NodeAffinityWeight) Atoi of Some v \<Rightarrow> v | None \<Rightarrow> 1) \<and>
   podAffinityWeight (calculateWeight Atoi args) =
     (case Option.bind (args PodAffinityWeight) Atoi of Some v \<Rightarrow> v | None \<Rightarrow> 1) \<and>
   leastReqWeight (calculateWeight Atoi args) =
     (case Option.bind (args LeastRequestedWeight) Atoi of Some v \<Rightarrow> v | None \<Rightarrow> 1) \<and>
   balancedRescourceWeight (calculateWeight Atoi args) =
     (case Option.bind (args BalancedResourceWeight) Atoi of Some v \<Rightarrow> v | None \<Rightarrow> 1) \<and>
   (key \<notin> {NodeAffinityWeight, PodAffinityWeight, LeastRequestedWeight, BalancedResourceWeight}
      \<longrightarrow> calculateWeight Atoi (args(key := x)) = calculateWeight Atoi args)"
  by (auto simp: calculateWeight_def GetInt_def Let_def split: option.splits)

theorem calculateWeight_parsed_or_default_witness:
  "calculateWeight decimal
     [''leastrequested.weight'' \<mapsto> ''0'', ''podaffinity.weight'' \<mapsto> ''7'',
      ''nodeaffinity.weight'' \<mapsto> ''two'', ''imagelocality.weight'' \<mapsto> ''2'']
   = \<lparr>leastReqWeight = 0, nodeAffinityWeight = 1, podAffinityWeight = 7, balancedRescourceWeight = 1\<rparr>
   \<and> calculateWeight decimal
     [''leastrequested.weight'' \<mapsto> ''0'', ''podaffinity.weight'' \<mapsto> ''7'',
      ''nodeaffinity.weight'' \<mapsto> ''two'']
   = \<lparr>leastReqWeight = 0, nodeAffinityWeight = 1, podAffinityWeight = 7, balancedRescourceWeight = 1\<rparr>"
  using calculateWeight_parsed_or_default [of decimal
     "[''leastrequested.weight'' \<mapsto> ''0'', ''podaffinity.weight'' \<mapsto> ''7'',
      ''nodeaffinity.weight'' \<mapsto> ''two'']" "''imagelocality.weight''" "Some ''2''"]
  by (simp add: calculateWeight_def GetInt_def decimal_def NodeAffinityWeight_def
      PodAffinityWeight_def LeastRequestedWeight_def BalancedResourceWeight_def)

subsection \<open>Exact arithmetic in range\<close>

lemma round_f64_exact: "\<bar>x\<bar> < 2 ^ 53 \<Longrightarrow> round_f64 x = x"
  by (auto simp: round_f64_def round_mag_def)

lemma float64_exact: "\<bar>sint n\<bar> < 2 ^ 53 \<Longrightarrow> float64 n = sint n"
  by (simp add: float64_def round_f64_exact)

lemma f64_add_exact: "\<bar>a + b\<bar> < 2 ^ 53 \<Longrightarrow> f64_add a b = a + b"
  by (simp add: f64_add_def round_f64_exact)

lemma round_f64_0 [simp]: "round_f64 0 = 0"
  by (simp add: round_f64_def round_mag_def)

lemma f64_sum_4:
  "f64_sum [a, b, c, d] = f64_add (f64_add (f64_add (f64_add 0 a) b) c) d"
  by (simp add: f64_sum_def)

lemma f64_sum_exact:
  assumes "\<bar>a\<bar> < 2 ^ 51" "\<bar>b\<bar> < 2 ^ 51" "\<bar>c\<bar> < 2 ^ 51" "\<bar>d\<bar> < 2 ^ 51"
  shows "f64_sum [a, b, c, d] = a + b + c + d"
proof -
  have 1: "f64_add 0 a = a" using assms by (intro f64_add_exact [THEN trans]) auto
  have 2: "f64_add a b = a + b" using assms by (intro f64_add_exact) auto
  have 3: "f64_add (a + b) c = a + b + c" using assms by (intro f64_add_exact) auto
  have 4: "f64_add (a + b + c) d = a + b + c + d" using assms by (intro f64_add_exact) auto
  show ?thesis by (simp add: f64_sum_4 1 2 3 4)
qed

lemma sint_mult_exact:
  fixes a b :: go_int
  assumes "\<bar>sint a * sint b\<bar> < 2 ^ 63"
  shows "sint (a * b) = sint a * sint b"
proof -
  have "sint (a * b) = signed_take_bit 63 (sint a * sint b)"
    by (simp add: sint_word_ariths)
  also have "\<dots> = sint a * sint b"
    using assms by (intro signed_take_bit_int_eq_self) auto
  finally show ?thesis .
qed

subsection \<open>The paths of \<open>nodeOrderFn\<close>\<close>

lemma nodeOrderFn_success:
  assumes "LeastRequestedPriorityMap P (Pod task) (scoredEntry c node) = Inr h1"
    and "BalancedResourceAllocationMap P (Pod task) (scoredEntry c node) = Inr h2"
    and "CalculateNodeAffinityPriorityMap P (Pod task) (scoredEntry c node) = Inr h3"
    and "interPodAffinity P task c = Inr l"
  shows "fst (nodeOrderFn P task node c) =
     (f64_sum [float64 (Score h1 * leastReqWeight (weight c)),
               float64 (Score h2 * balancedRescourceWeight (weight c)),
               float64 (Score h3 * nodeAffinityWeight (weight c)),
               float64 (getInterPodAffinityScore (Name node) l * podAffinityWeight (weight c))],
      None)"
  using assms
  by (simp add: nodeOrderFn_def scoredEntry_def synthesized_def interPodAffinity_def f64_sum_4 Let_def
      split: option.splits)

lemma nodeOrderFn_state: "snd (snd (nodeOrderFn P task node c)) = c"
  by (simp add: nodeOrderFn_def Let_def split: option.splits sum.splits prod.splits)


lemma scoredEntry_unknown: "nodeMap c (Name node) = None \<Longrightarrow> scoredEntry c node = synthesized node"
  by (simp add: scoredEntry_def)

lemma nodeOrderFn_fail1:
  assumes "LeastRequestedPriorityMap P (Pod task) (scoredEntry c node) = Inl e"
  shows "fst (nodeOrderFn P task node c) = (0, Some e)"
    and "calls (fst (snd (nodeOrderFn P task node c))) = [LeastRequested]"
  using assms
  by (simp_all add: nodeOrderFn_def scoredEntry_def synthesized_def Let_def split: option.splits)

lemma nodeOrderFn_fail2:
  assumes "LeastRequestedPriorityMap P (Pod task) (scoredEntry c node) = Inr h1"
    and "BalancedResourceAllocationMap P (Pod task) (scoredEntry c node) = Inl e"
  shows "fst (nodeOrderFn P task node c) = (0, Some e)"
    and "calls (fst (snd (nodeOrderFn P task node c))) = [LeastRequested, BalancedResource]"
  using assms
  by (simp_all add: nodeOrderFn_def scoredEntry_def synthesized_def Let_def split: option.splits)

lemma nodeOrderFn_fail3:
  assumes "LeastRequestedPriorityMap P (Pod task) (scoredEntry c node) = Inr h1"
    and "BalancedResourceAllocationMap P (Pod task) (scoredEntry c node) = Inr h2"
    and "CalculateNodeAffinityPriorityMap P (Pod task) (scoredEntry c node) = Inl e"
  shows "fst (nodeOrderFn P task node c) = (0, Some e)"
    and "calls (fst (snd (nodeOrderFn P task node c))) =
           [LeastRequested, BalancedResource, NodeAffinity]"
  using assms
  by (simp_all add: nodeOrderFn_def scoredEntry_def synthesized_def Let_def split: option.splits)

lemma nodeOrderFn_fail4:
  assumes "LeastRequestedPriorityMap P (Pod task) (scoredEntry c node) = Inr h1"
    and "BalancedResourceAllocationMap P (Pod task) (scoredEntry c node) = Inr h2"
    and "CalculateNodeAffinityPriorityMap P (Pod task) (scoredEntry c node) = Inr h3"
    and "interPodAffinity P task c = Inl e"
  shows "fst (nodeOrderFn P task node c) = (0, Some e)"
    and "calls (fst (snd (nodeOrderFn P task node c))) =
           [LeastRequested, BalancedResource, NodeAffinity, InterPodAffinity]"
  using assms
  by (simp_all add: nodeOrderFn_def scoredEntry_def synthesized_def interPodAffinity_def Let_def
      split: option.splits)

lemma nodeOrderFn_error_zero:
  "snd (fst (nodeOrderFn P task node c)) \<noteq> None \<Longrightarrow> fst (fst (nodeOrderFn P task node c)) = 0"
  by (simp add: nodeOrderFn_def Let_def split: option.splits sum.splits prod.splits)

lemma nodeOrderFn_error_source:
  assumes "snd (fst (nodeOrderFn P task node c)) = Some e"
  shows "LeastRequestedPriorityMap P (Pod task) (scoredEntry c node) = Inl e \<or>
         BalancedResourceAllocationMap P (Pod task) (scoredEntry c node) = Inl e \<or>
         CalculateNodeAffinityPriorityMap P (Pod task) (scoredEntry c node) = Inl e \<or>
         interPodAffinity P task c = Inl e"
  using assms
  by (simp add: nodeOrderFn_def scoredEntry_def synthesized_def interPodAffinity_def Let_def
      split: option.splits sum.splits prod.splits)

lemma nodeOrderFn_unknown_warning:
  assumes "nodeMap c (Name node) = None"
  shows "\<exists>t. fst (snd (nodeOrderFn P task node c)) =
           Warningf ''node order, generate node info for %s at NodeOrderFn is unexpected''
             [StrArg (Name node)] # t"
  using assms
  by (simp add: nodeOrderFn_def Let_def split: option.splits sum.splits prod.splits)

lemma NewNodeInfo_fold:
  "foldl AddPod n pods =
     n\<lparr>boundTasks := boundTasks n + image_mset taskRef (mset pods),
       aggregateUsage := aggregateUsage n + sum_list (map Requests pods)\<rparr>"
  by (induction pods arbitrary: n) (simp_all add: AddPod_def add.assoc)

lemma synthesized_fields:
  "boundTasks (synthesized node) = image_mset taskRef (mset (Pods node))"
  "aggregateUsage (synthesized node) = sum_list (map Requests (Pods node))"
  "nodeRef (synthesized node) = Some (Node node)"
  by (simp_all add: synthesized_def SetNode_def NewNodeInfo_def NewNodeInfo_fold)

lemma float64_mult_exact:
  assumes "\<bar>sint a * sint b\<bar> < 2 ^ 51"
  shows "float64 (a * b) = sint a * sint b"
proof -
  have "sint (a * b) = sint a * sint b"
    using assms by (intro sint_mult_exact) simp
  then show ?thesis
    using assms by (simp add: float64_exact)
qed

lemma float64_0 [simp]: "float64 0 = 0"
  by (simp add: float64_def)

lemma f64_sum_zero_head: "f64_sum (0 # xs) = f64_sum xs"
  by (simp add: f64_sum_def f64_add_def)

lemma nodeOrderFn_exact:
  assumes "LeastRequestedPriorityMap P (Pod task) (scoredEntry c node) = Inr h1"
    and "BalancedResourceAllocationMap P (Pod task) (scoredEntry c node) = Inr h2"
    and "CalculateNodeAffinityPriorityMap P (Pod task) (scoredEntry c node) = Inr h3"
    and "interPodAffinity P task c = Inr l"
    and "\<bar>sint (Score h1) * sint (leastReqWeight (weight c))\<bar> < 2 ^ 51"
    and "\<bar>sint (Score h2) * sint (balancedRescourceWeight (weight c))\<bar> < 2 ^ 51"
    and "\<bar>sint (Score h3) * sint (nodeAffinityWeight (weight c))\<bar> < 2 ^ 51"
    and "\<bar>sint (getInterPodAffinityScore (Name node) l) * sint (podAffinityWeight (weight c))\<bar> < 2 ^ 51"
  shows "fst (nodeOrderFn P task node c) =
    (sint (Score h1) * sint (leastReqWeight (weight c)) +
     sint (Score h2) * sint (balancedRescourceWeight (weight c)) +
     sint (Score h3) * sint (nodeAffinityWeight (weight c)) +
     sint (getInterPodAffinityScore (Name node) l) * sint (podAffinityWeight (weight c)), None)"
  using assms(5-8)
  by (simp add: nodeOrderFn_success [OF assms(1-4)] float64_mult_exact f64_sum_exact)

subsection \<open>The composite score\<close>

text \<open>
  C1, as the code has it. For every (task, node) call in which all four priorities
  succeed and the four weighted sub-scores have magnitude below \<open>2^51\<close> (so that
  neither Go's \<open>int\<close> product wraps nor the \<open>float64\<close> sum rounds), the returned score
  is exactly the sum of each raw sub-score multiplied by its weight, and the error is
  \<open>nil\<close>; in particular, with all four weights 1 it is the unweighted sum of the four
  sub-scores. The entry scored against is the index's entry of the node, or the
  synthesized one.
\<close>

theorem nodeOrderFn_weighted_sum:
  "LeastRequestedPriorityMap P (Pod task) (scoredEntry c node) = Inr h1 \<and>
   BalancedResourceAllocationMap P (Pod task) (scoredEntry c node) = Inr h2 \<and>
   CalculateNodeAffinityPriorityMap P (Pod task) (scoredEntry c node) = Inr h3 \<and>
   interPodAffinity P task c = Inr l \<and>
   \<bar>sint (Score h1) * sint (leastReqWeight (weight c))\<bar> < 2 ^ 51 \<and>
   \<bar>sint (Score h2) * sint (balancedRescourceWeight (weight c))\<bar> < 2 ^ 51 \<and>
   \<bar>sint (Score h3) * sint (nodeAffinityWeight (weight c))\<bar> < 2 ^ 51 \<and>
   \<bar>sint (getInterPodAffinityScore (Name node) l) * sint (podAffinityWeight (weight c))\<bar> < 2 ^ 51
   \<longrightarrow>
   fst (nodeOrderFn P task node c) =
     (sint (Score h1) * sint (leastReqWeight (weight c)) +
      sint (Score h2) * sint (balancedRescourceWeight (weight c)) +
      sint (Score h3) * sint (nodeAffinityWeight (weight c)) +
      sint (getInterPodAffinityScore (Name node) l) * sint (podAffinityWeight (weight c)), None) \<and>
   (weight c = weights 1 1 1 1 \<longrightarrow>
      fst (nodeOrderFn P task node c) =
        (sint (Score h1) + sint (Score h2) + sint (Score h3) +
         sint (getInterPodAffinityScore (Name node) l), None))"
proof (intro impI, elim conjE)
  assume s: "LeastRequestedPriorityMap P (Pod task) (scoredEntry c node) = Inr h1"
    "BalancedResourceAllocationMap P (Pod task) (scoredEntry c node) = Inr h2"
    "CalculateNodeAffinityPriorityMap P (Pod task) (scoredEntry c node) = Inr h3"
    "interPodAffinity P task c = Inr l"
    and b: "\<bar>sint (Score h1) * sint (leastReqWeight (weight c))\<bar> < 2 ^ 51"
    "\<bar>sint (Score h2) * sint (balancedRescourceWeight (weight c))\<bar> < 2 ^ 51"
    "\<bar>sint (Score h3) * sint (nodeAffinityWeight (weight c))\<bar> < 2 ^ 51"
    "\<bar>sint (getInterPodAffinityScore (Name node) l) * sint (podAffinityWeight (weight c))\<bar> < 2 ^ 51"
  note e = nodeOrderFn_exact [OF s b]
  have "fst (nodeOrderFn P task node c) =
        (sint (Score h1) + sint (Score h2) + sint (Score h3) +
         sint (getInterPodAffinityScore (Name node) l), None)"
    if "weight c = weights 1 1 1 1"
    using e that by (simp add: weights_def)
  with e show "fst (nodeOrderFn P task node c) =
     (sint (Score h1) * sint (leastReqWeight (weight c)) +
      sint (Score h2) * sint (balancedRescourceWeight (weight c)) +
      sint (Score h3) * sint (nodeAffinityWeight (weight c)) +
      sint (getInterPodAffinityScore (Name node) l) * sint (podAffinityWeight (weight c)), None) \<and>
   (weight c = weights 1 1 1 1 \<longrightarrow>
      fst (nodeOrderFn P task node c) =
        (sint (Score h1) + sint (Score h2) + sint (Score h3) +
         sint (getInterPodAffinityScore (Name node) l), None))"
    by blast
qed

theorem nodeOrderFn_weighted_sum_witness:
  "fst (nodeOrderFn
          (fixed_priorities (Inr 3) (Inr 5) (Inr 2) (Inr [\<lparr>Host = ''n1'', Score = 4\<rparr>]))
          (Task (event_for ''t1'' ''n1'')) (node_with ''n1'' [])
          (session_with (weights 2 1 3 1) Map.empty)) = (3 * 2 + 5 * 1 + 2 * 3 + 4 * 1, None)
   \<and> fst (nodeOrderFn
          (fixed_priorities (Inr 3) (Inr 5) (Inr 2) (Inr [\<lparr>Host = ''n1'', Score = 4\<rparr>]))
          (Task (event_for ''t1'' ''n1'')) (node_with ''n1'' [])
          (session_with (weights 1 1 1 1) Map.empty)) = (3 + 5 + 2 + 4, None)"
  using nodeOrderFn_weighted_sum [of
      "fixed_priorities (Inr 3) (Inr 5) (Inr 2) (Inr [\<lparr>Host = ''n1'', Score = 4\<rparr>])"
      "Task (event_for ''t1'' ''n1'')" "session_with (weights 2 1 3 1) Map.empty"
      "node_with ''n1'' []" "\<lparr>Host = [], Score = 3\<rparr>" "\<lparr>Host = [], Score = 5\<rparr>"
      "\<lparr>Host = [], Score = 2\<rparr>" "[\<lparr>Host = ''n1'', Score = 4\<rparr>]"]
    nodeOrderFn_weighted_sum [of
      "fixed_priorities (Inr 3) (Inr 5) (Inr 2) (Inr [\<lparr>Host = ''n1'', Score = 4\<rparr>])"
      "Task (event_for ''t1'' ''n1'')" "session_with (weights 1 1 1 1) Map.empty"
      "node_with ''n1'' []" "\<lparr>Host = [], Score = 3\<rparr>" "\<lparr>Host = [], Score = 5\<rparr>"
      "\<lparr>Host = [], Score = 2\<rparr>" "[\<lparr>Host = ''n1'', Score = 4\<rparr>]"]
  by (simp add: fixed_priorities_def session_with_def weights_def node_with_def
      interPodAffinity_def)

text \<open>
  The claim as stated, for every call in which the four priorities succeed, fails
  where the arithmetic leaves its exact range. With Least-Requested scoring 10 under
  the weight \<open>2^60\<close> and the other sub-scores 0, the sum of the weighted sub-scores is
  \<open>10 * 2^60\<close> and the score returned is \<open>-6 * 2^60\<close>: the \<open>int\<close> product wraps. With
  the sub-scores \<open>2^53\<close>, 1, 1 and 0 under weights 1, the sum is \<open>2^53 + 2\<close>, itself a
  \<open>float64\<close>, and the score returned is \<open>2^53\<close>: each addition of 1 rounds back.
\<close>

theorem nodeOrderFn_weighted_sum_counterexample:
  "fst (nodeOrderFn (fixed_priorities (Inr 10) (Inr 0) (Inr 0) (Inr []))
          (Task (event_for ''t1'' ''n1'')) (node_with ''n1'' [])
          (session_with (weights (2 ^ 60) 1 1 1) Map.empty)) = (- 6 * 2 ^ 60, None)
   \<and> sint (10 :: go_int) * sint (2 ^ 60 :: go_int) + sint (0 :: go_int) * sint (1 :: go_int)
       + sint (0 :: go_int) * sint (1 :: go_int) + sint (0 :: go_int) * sint (1 :: go_int)
       = 10 * 2 ^ 60
   \<and> fst (nodeOrderFn (fixed_priorities (Inr (2 ^ 53)) (Inr 1) (Inr 1) (Inr []))
          (Task (event_for ''t1'' ''n1'')) (node_with ''n1'' [])
          (session_with (weights 1 1 1 1) Map.empty)) = (2 ^ 53, None)
   \<and> sint (2 ^ 53 :: go_int) + sint (1 :: go_int) + sint (1 :: go_int) + sint (0 :: go_int)
       = 2 ^ 53 + 2
   \<and> round_f64 (2 ^ 53 + 2) = 2 ^ 53 + 2"
  by (simp add: fixed_priorities_def session_with_def weights_def node_with_def
      nodeOrderFn_def Let_def SetNode_def NewNodeInfo_def
      f64_add_def float64_def round_f64_def round_mag_def compute_floorlog)

text \<open>
  C2. For every (task, node) call, if one of the four priorities returns an error
  (the ones before it, in the order Least-Requested, Balanced-Resource, Node-Affinity,
  Inter-Pod-Affinity, having succeeded), the call returns that error, the priorities
  after it are not called, and the float returned beside the error is 0: the terms
  summed so far are dropped, and no result with an error carries a score.
\<close>

theorem nodeOrderFn_error_short_circuit:
  "(LeastRequestedPriorityMap P (Pod task) (scoredEntry c node) = Inl e \<longrightarrow>
      fst (nodeOrderFn P task node c) = (0, Some e) \<and>
      calls (fst (snd (nodeOrderFn P task node c))) = [LeastRequested]) \<and>
   (LeastRequestedPriorityMap P (Pod task) (scoredEntry c node) = Inr h1 \<and>
    BalancedResourceAllocationMap P (Pod task) (scoredEntry c node) = Inl e \<longrightarrow>
      fst (nodeOrderFn P task node c) = (0, Some e) \<and>
      calls (fst (snd (nodeOrderFn P task node c))) = [LeastRequested, BalancedResource]) \<and>
   (LeastRequestedPriorityMap P (Pod task) (scoredEntry c node) = Inr h1 \<and>
    BalancedResourceAllocationMap P (Pod task) (scoredEntry c node) = Inr h2 \<and>
    CalculateNodeAffinityPriorityMap P (Pod task) (scoredEntry c node) = Inl e \<longrightarrow>
      fst (nodeOrderFn P task node c) = (0, Some e) \<and>
      calls (fst (snd (nodeOrderFn P task node c))) =
        [LeastRequested, BalancedResource, NodeAffinity]) \<and>
   (LeastRequestedPriorityMap P (Pod task) (scoredEntry c node) = Inr h1 \<and>
    BalancedResourceAllocationMap P (Pod task) (scoredEntry c node) = Inr h2 \<and>
    CalculateNodeAffinityPriorityMap P (Pod task) (scoredEntry c node) = Inr h3 \<and>
    interPodAffinity P task c = Inl e \<longrightarrow>
      fst (nodeOrderFn P task node c) = (0, Some e) \<and>
      calls (fst (snd (nodeOrderFn P task node c))) =
        [LeastRequested, BalancedResource, NodeAffinity, InterPodAffinity]) \<and>
   (snd (fst (nodeOrderFn P task node c)) \<noteq> None \<longrightarrow> fst (fst (nodeOrderFn P task node c)) = 0)"
  using nodeOrderFn_fail1 [of P task c node e]
    nodeOrderFn_fail2 [of P task c node h1 e]
    nodeOrderFn_fail3 [of P task c node h1 h2 e]
    nodeOrderFn_fail4 [of P task c node h1 h2 h3 e]
    nodeOrderFn_error_zero [of P task node c]
  by blast

theorem nodeOrderFn_error_short_circuit_witness:
  "fst (nodeOrderFn
          (fixed_priorities (Inl ''no capacity'') (Inr 5) (Inr 2) (Inr []))
          (Task (event_for ''t1'' ''n1'')) (node_with ''n1'' [])
          (session_with (weights 1 1 1 1) Map.empty)) = (0, Some ''no capacity'')
   \<and> calls (fst (snd (nodeOrderFn
          (fixed_priorities (Inl ''no capacity'') (Inr 5) (Inr 2) (Inr []))
          (Task (event_for ''t1'' ''n1'')) (node_with ''n1'' [])
          (session_with (weights 1 1 1 1) Map.empty)))) = [LeastRequested]
   \<and> fst (nodeOrderFn
          (fixed_priorities (Inr 3) (Inr 5) (Inr 2) (Inl ''bad selector''))
          (Task (event_for ''t1'' ''n1'')) (node_with ''n1'' [])
          (session_with (weights 1 1 1 1) Map.empty)) = (0, Some ''bad selector'')"
  using nodeOrderFn_error_short_circuit [of
      "fixed_priorities (Inl ''no capacity'') (Inr 5) (Inr 2) (Inr [])"
      "Task (event_for ''t1'' ''n1'')" "session_with (weights 1 1 1 1) Map.empty"
      "node_with ''n1'' []" "''no capacity''"]
    nodeOrderFn_error_short_circuit [of
      "fixed_priorities (Inr 3) (Inr 5) (Inr 2) (Inl ''bad selector'')"
      "Task (event_for ''t1'' ''n1'')" "session_with (weights 1 1 1 1) Map.empty"
      "node_with ''n1'' []" "''bad selector''" "\<lparr>Host = [], Score = 3\<rparr>"
      "\<lparr>Host = [], Score = 5\<rparr>" "\<lparr>Host = [], Score = 2\<rparr>"]
  by (simp add: fixed_priorities_def interPodAffinity_def session_with_def)

lemma sameMap_map_of: "sameMap xs ys \<Longrightarrow> map_of xs = map_of ys"
  by (simp add: sameMap_def map_of_inject_set)

lemma firstNodeWithUnassignedPod_Some:
  "firstNodeWithUnassignedPod Nodes = Some n \<Longrightarrow>
     \<exists>(k, cn) \<in> set Nodes. hasUnassignedPod (Pods cn) \<and> Node cn = n"
  by (induction Nodes rule: firstNodeWithUnassignedPod.induct) (auto split: if_splits)

lemma firstNodeWithUnassignedPod_order:
  assumes "set xs = set ys"
    and u: "\<forall>(k, a) \<in> set xs. \<forall>(k', b) \<in> set xs.
              hasUnassignedPod (Pods a) \<and> hasUnassignedPod (Pods b) \<longrightarrow> Node a = Node b"
  shows "firstNodeWithUnassignedPod xs = firstNodeWithUnassignedPod ys"
proof (cases "firstNodeWithUnassignedPod xs")
  case None
  then have "firstNodeWithUnassignedPod ys = None"
    using assms(1) by (simp add: firstNodeWithUnassignedPod_None)
  with None show ?thesis by simp
next
  case (Some n)
  then obtain k a where a: "(k, a) \<in> set xs" "hasUnassignedPod (Pods a)" "Node a = n"
    using firstNodeWithUnassignedPod_Some by fastforce
  then have "firstNodeWithUnassignedPod ys \<noteq> None"
    using assms(1) by (auto simp: firstNodeWithUnassignedPod_None)
  then obtain m where m: "firstNodeWithUnassignedPod ys = Some m" by blast
  then obtain k' b where b: "(k', b) \<in> set ys" "hasUnassignedPod (Pods b)" "Node b = m"
    using firstNodeWithUnassignedPod_Some by fastforce
  have "Node a = Node b"
    using u a b assms(1) by blast
  with a b m Some show ?thesis by simp
qed

lemma GetNodeInfo_order:
  assumes "sameMap xs ys"
    and "\<forall>(k, a) \<in> set xs. \<forall>(k', b) \<in> set xs.
              hasUnassignedPod (Pods a) \<and> hasUnassignedPod (Pods b) \<longrightarrow> Node a = Node b"
  shows "GetNodeInfo ys = GetNodeInfo xs"
proof
  fix name
  have "set xs = set ys" using assms(1) by (simp add: sameMap_def)
  then have f: "firstNodeWithUnassignedPod ys = firstNodeWithUnassignedPod xs"
    using firstNodeWithUnassignedPod_order [OF _ assms(2), of ys] by simp
  have m: "map_of ys = map_of xs"
    using sameMap_map_of [OF assms(1)] by simp
  show "GetNodeInfo ys name = GetNodeInfo xs name"
    by (simp only: GetNodeInfo_def f m)
qed

lemma nodeOrderFn_depends:
  assumes "weight c' = weight c" "nodeMap c' = nodeMap c"
    and "interPodAffinity P task c' = interPodAffinity P task c"
  shows "fst (nodeOrderFn P task node c') = fst (nodeOrderFn P task node c)"
    and "fst (snd (nodeOrderFn P task node c')) = fst (snd (nodeOrderFn P task node c))"
  using assms
  by (simp_all add: nodeOrderFn_def interPodAffinity_def Let_def
      split: option.splits sum.splits prod.splits)

text \<open>
  C9, as the code has it. For every (task, node) pair, a scoring call leaves the
  captured variables as it found them: it does not mutate the index, and the entry
  synthesized for an unknown node is not put into it. A second call with no event in
  between, which may visit the session's node map in another order, returns the same
  result and the same effects provided the order cannot show: no two nodes hosting a
  pod with an empty node name have different node objects, so that \<open>GetNodeInfo\<close>
  answers alike in every order, and the inter-pod-affinity priority does not depend
  on the order in which the node lister hands it the nodes. The priorities are
  functions of their arguments.
\<close>

theorem nodeOrderFn_repeatable:
  "snd (snd (nodeOrderFn P task node c)) = c \<and>
   nodeMap (snd (snd (nodeOrderFn P task node c))) = nodeMap c \<and>
   (sameMap (ssn_Nodes c) nodes' \<and>
    (\<forall>(k, a) \<in> set (ssn_Nodes c). \<forall>(k', b) \<in> set (ssn_Nodes c).
        hasUnassignedPod (Pods a) \<and> hasUnassignedPod (Pods b) \<longrightarrow> Node a = Node b) \<and>
    (\<forall>cn. NewInterPodAffinityPriority P cn nodes' = NewInterPodAffinityPriority P cn (ssn_Nodes c))
    \<longrightarrow>
      fst (nodeOrderFn P task node ((snd (snd (nodeOrderFn P task node c)))\<lparr>ssn_Nodes := nodes'\<rparr>))
        = fst (nodeOrderFn P task node c) \<and>
      fst (snd (nodeOrderFn P task node
                 ((snd (snd (nodeOrderFn P task node c)))\<lparr>ssn_Nodes := nodes'\<rparr>)))
        = fst (snd (nodeOrderFn P task node c)))"
proof -
  have r: "fst (nodeOrderFn P task node (c\<lparr>ssn_Nodes := nodes'\<rparr>)) = fst (nodeOrderFn P task node c) \<and>
      fst (snd (nodeOrderFn P task node (c\<lparr>ssn_Nodes := nodes'\<rparr>))) =
      fst (snd (nodeOrderFn P task node c))"
    if m: "sameMap (ssn_Nodes c) nodes'"
      and u: "\<forall>(k, a) \<in> set (ssn_Nodes c). \<forall>(k', b) \<in> set (ssn_Nodes c).
        hasUnassignedPod (Pods a) \<and> hasUnassignedPod (Pods b) \<longrightarrow> Node a = Node b"
      and l: "\<forall>cn. NewInterPodAffinityPriority P cn nodes' =
                   NewInterPodAffinityPriority P cn (ssn_Nodes c)"
  proof -
    have "interPodAffinity P task (c\<lparr>ssn_Nodes := nodes'\<rparr>) = interPodAffinity P task c"
      using GetNodeInfo_order [OF m u] l by (simp add: interPodAffinity_def)
    then show ?thesis
      by (intro conjI nodeOrderFn_depends) simp_all
  qed
  show ?thesis
    using r by (simp add: nodeOrderFn_state)
qed

theorem nodeOrderFn_repeatable_witness:
  "fst (nodeOrderFn lookup_priorities (Task (event_for ''t1'' ''n1'')) (node_with ''n1'' [])
      ((session_with (weights 1 1 1 1) Map.empty)
         \<lparr>ssn_Nodes := [(''n1'', node_with ''n1'' [pod_on ''a'' []]),
                        (''n2'', node_with ''n2'' [pod_on ''b'' ''n2''])]\<rparr>)) = (1, None)
   \<and> fst (nodeOrderFn lookup_priorities (Task (event_for ''t1'' ''n1'')) (node_with ''n1'' [])
      ((session_with (weights 1 1 1 1) Map.empty)
         \<lparr>ssn_Nodes := [(''n2'', node_with ''n2'' [pod_on ''b'' ''n2'']),
                        (''n1'', node_with ''n1'' [pod_on ''a'' []])]\<rparr>)) = (1, None)
   \<and> nodeMap (snd (snd (nodeOrderFn lookup_priorities (Task (event_for ''t1'' ''n1''))
        (node_with ''n1'' [])
        ((session_with (weights 1 1 1 1) Map.empty)
           \<lparr>ssn_Nodes := [(''n1'', node_with ''n1'' [pod_on ''a'' []]),
                          (''n2'', node_with ''n2'' [pod_on ''b'' ''n2''])]\<rparr>)))) ''n1'' = None"
proof -
  let ?xs = "[(''n1'', node_with ''n1'' [pod_on ''a'' []]),
              (''n2'', node_with ''n2'' [pod_on ''b'' ''n2''])]"
  let ?ys = "[(''n2'', node_with ''n2'' [pod_on ''b'' ''n2'']),
              (''n1'', node_with ''n1'' [pod_on ''a'' []])]"
  let ?c = "(session_with (weights 1 1 1 1) Map.empty)\<lparr>ssn_Nodes := ?xs\<rparr>"
  let ?t = "Task (event_for ''t1'' ''n1'')"
  let ?n = "node_with ''n1'' []"
  have m: "sameMap (ssn_Nodes ?c) ?ys"
    by (auto simp: sameMap_def session_with_def)
  have u: "\<forall>(k, a) \<in> set (ssn_Nodes ?c). \<forall>(k', b) \<in> set (ssn_Nodes ?c).
        hasUnassignedPod (Pods a) \<and> hasUnassignedPod (Pods b) \<longrightarrow> Node a = Node b"
    by (simp add: session_with_def node_with_def pod_on_def)
  have l: "\<forall>cn. NewInterPodAffinityPriority lookup_priorities cn ?ys =
                NewInterPodAffinityPriority lookup_priorities cn (ssn_Nodes ?c)"
    by (simp add: lookup_priorities_def)
  have first: "fst (nodeOrderFn lookup_priorities ?t ?n ?c) = (1, None)"
    by (simp add: lookup_priorities_def session_with_def weights_def node_with_def pod_on_def
        nodeOrderFn_def Let_def GetNodeInfo_def
        f64_add_def float64_def round_f64_def round_mag_def)
  have w: "?c\<lparr>ssn_Nodes := ?ys\<rparr> = (session_with (weights 1 1 1 1) Map.empty)\<lparr>ssn_Nodes := ?ys\<rparr>"
    by simp
  from nodeOrderFn_repeatable [of lookup_priorities ?t ?n ?c ?ys] m u l
  have st: "snd (snd (nodeOrderFn lookup_priorities ?t ?n ?c)) = ?c"
    and again: "fst (nodeOrderFn lookup_priorities ?t ?n
           ((snd (snd (nodeOrderFn lookup_priorities ?t ?n ?c)))\<lparr>ssn_Nodes := ?ys\<rparr>))
         = fst (nodeOrderFn lookup_priorities ?t ?n ?c)"
    by blast+
  have second: "fst (nodeOrderFn lookup_priorities ?t ?n
        ((session_with (weights 1 1 1 1) Map.empty)\<lparr>ssn_Nodes := ?ys\<rparr>)) = (1, None)"
    using again unfolding st w first .
  have third: "nodeMap (snd (snd (nodeOrderFn lookup_priorities ?t ?n ?c))) ''n1'' = None"
    unfolding st by (simp add: session_with_def)
  from first second third show ?thesis by blast
qed

text \<open>
  The claim as stated, identical results for identical index and cluster state, fails:
  \<open>GetNodeInfo\<close> answers a name it does not know with the first node, in the order of
  its \<open>range\<close> loop over a Go map, that hosts a pod with an empty node name, and it is
  handed to the inter-pod-affinity priority. With the nodes \<open>n1\<close> and \<open>n2\<close> each
  hosting such a pod, and a priority that looks up the empty name, the same (task,
  node) pair scores 1 when the loop visits \<open>n1\<close> first and 0 when it visits \<open>n2\<close>
  first, the map being the same.
\<close>

theorem nodeOrderFn_repeatable_counterexample:
  "sameMap [(''n1'', node_with ''n1'' [pod_on ''a'' []]),
            (''n2'', node_with ''n2'' [pod_on ''b'' []])]
           [(''n2'', node_with ''n2'' [pod_on ''b'' []]),
            (''n1'', node_with ''n1'' [pod_on ''a'' []])]
   \<and> fst (nodeOrderFn lookup_priorities (Task (event_for ''t1'' ''n1'')) (node_with ''n1'' [])
      ((session_with (weights 1 1 1 1) Map.empty)
         \<lparr>ssn_Nodes := [(''n1'', node_with ''n1'' [pod_on ''a'' []]),
                        (''n2'', node_with ''n2'' [pod_on ''b'' []])]\<rparr>)) = (1, None)
   \<and> fst (nodeOrderFn lookup_priorities (Task (event_for ''t1'' ''n1'')) (node_with ''n1'' [])
      ((session_with (weights 1 1 1 1) Map.empty)
         \<lparr>ssn_Nodes := [(''n2'', node_with ''n2'' [pod_on ''b'' []]),
                        (''n1'', node_with ''n1'' [pod_on ''a'' []])]\<rparr>)) = (0, None)"
  by (auto simp: sameMap_def lookup_priorities_def session_with_def weights_def node_with_def
      pod_on_def nodeOrderFn_def Let_def GetNodeInfo_def
      f64_add_def float64_def round_f64_def round_mag_def)

text \<open>
  C4, as the code has it. For every (task, node) call where the node is absent from
  \<open>nodeMap\<close>, the call logs a warning, leaves the captured variables unchanged and
  returns an error only if one of the four priorities does; the entry it scores
  against is synthesized from the candidate node's own pods and node object
  (\<open>NewNodeInfo(node.Pods()...)\<close> then \<open>SetNode(node.Node)\<close>): its bound tasks are the
  node's pods and its usage the sum of their requests, so it is empty only for a node
  without pods.
\<close>

theorem nodeOrderFn_unknown_node:
  "nodeMap c (Name node) = None \<longrightarrow>
     (\<exists>t. fst (snd (nodeOrderFn P task node c)) =
        Warningf ''node order, generate node info for %s at NodeOrderFn is unexpected''
          [StrArg (Name node)] # t) \<and>
     snd (snd (nodeOrderFn P task node c)) = c \<and>
     (LeastRequestedPriorityMap P (Pod task) (synthesized node) = Inr h1 \<and>
      BalancedResourceAllocationMap P (Pod task) (synthesized node) = Inr h2 \<and>
      CalculateNodeAffinityPriorityMap P (Pod task) (synthesized node) = Inr h3 \<and>
      interPodAffinity P task c = Inr l \<longrightarrow>
        fst (nodeOrderFn P task node c) =
          (f64_sum [float64 (Score h1 * leastReqWeight (weight c)),
                    float64 (Score h2 * balancedRescourceWeight (weight c)),
                    float64 (Score h3 * nodeAffinityWeight (weight c)),
                    float64 (getInterPodAffinityScore (Name node) l * podAffinityWeight (weight c))],
           None)) \<and>
     (\<forall>e. snd (fst (nodeOrderFn P task node c)) = Some e \<longrightarrow>
        LeastRequestedPriorityMap P (Pod task) (synthesized node) = Inl e \<or>
        BalancedResourceAllocationMap P (Pod task) (synthesized node) = Inl e \<or>
        CalculateNodeAffinityPriorityMap P (Pod task) (synthesized node) = Inl e \<or>
        interPodAffinity P task c = Inl e) \<and>
     nodeRef (synthesized node) = Some (Node node) \<and>
     boundTasks (synthesized node) = image_mset taskRef (mset (Pods node)) \<and>
     aggregateUsage (synthesized node) = sum_list (map Requests (Pods node))"
proof
  assume u: "nodeMap c (Name node) = None"
  note e = scoredEntry_unknown [OF u]
  show "(\<exists>t. fst (snd (nodeOrderFn P task node c)) =
        Warningf ''node order, generate node info for %s at NodeOrderFn is unexpected''
          [StrArg (Name node)] # t) \<and>
     snd (snd (nodeOrderFn P task node c)) = c \<and>
     (LeastRequestedPriorityMap P (Pod task) (synthesized node) = Inr h1 \<and>
      BalancedResourceAllocationMap P (Pod task) (synthesized node) = Inr h2 \<and>
      CalculateNodeAffinityPriorityMap P (Pod task) (synthesized node) = Inr h3 \<and>
      interPodAffinity P task c = Inr l \<longrightarrow>
        fst (nodeOrderFn P task node c) =
          (f64_sum [float64 (Score h1 * leastReqWeight (weight c)),
                    float64 (Score h2 * balancedRescourceWeight (weight c)),
                    float64 (Score h3 * nodeAffinityWeight (weight c)),
                    float64 (getInterPodAffinityScore (Name node) l * podAffinityWeight (weight c))],
           None)) \<and>
     (\<forall>e. snd (fst (nodeOrderFn P task node c)) = Some e \<longrightarrow>
        LeastRequestedPriorityMap P (Pod task) (synthesized node) = Inl e \<or>
        BalancedResourceAllocationMap P (Pod task) (synthesized node) = Inl e \<or>
        CalculateNodeAffinityPriorityMap P (Pod task) (synthesized node) = Inl e \<or>
        interPodAffinity P task c = Inl e) \<and>
     nodeRef (synthesized node) = Some (Node node) \<and>
     boundTasks (synthesized node) = image_mset taskRef (mset (Pods node)) \<and>
     aggregateUsage (synthesized node) = sum_list (map Requests (Pods node))"
    using nodeOrderFn_unknown_warning [OF u, of P task]
      nodeOrderFn_state [of P task node c]
      nodeOrderFn_success [of P task c node h1 h2 h3 l]
      nodeOrderFn_error_source [of P task node c]
      synthesized_fields [of node]
    unfolding e by blast
qed

theorem nodeOrderFn_unknown_node_witness:
  "fst (nodeOrderFn reading_priorities (Task (event_for ''t1'' ''n1''))
       (node_with ''n1'' [pod_on ''a'' ''n1'', pod_on ''b'' ''n1''])
       (session_with (weights 1 1 1 1) Map.empty)) = (2, None)
   \<and> aggregateUsage (synthesized (node_with ''n1'' [pod_on ''a'' ''n1'', pod_on ''b'' ''n1''])) = 4"
  using nodeOrderFn_unknown_node [of "session_with (weights 1 1 1 1) Map.empty"
      "node_with ''n1'' [pod_on ''a'' ''n1'', pod_on ''b'' ''n1'']" reading_priorities
      "Task (event_for ''t1'' ''n1'')"
      "\<lparr>Host = [], Score = 2\<rparr>" "\<lparr>Host = [], Score = 0\<rparr>" "\<lparr>Host = [], Score = 0\<rparr>"
      "[\<lparr>Host = ''n1'', Score = 0\<rparr>]"]
  by (simp add: reading_priorities_def session_with_def weights_def node_with_def pod_on_def
      interPodAffinity_def f64_sum_def f64_add_def float64_def round_f64_def round_mag_def)

text \<open>
  The claim as stated, that the synthesized entry is empty, fails for a node that has
  a pod: the node \<open>n1\<close> with the pod \<open>a\<close> is not in the index, the entry scored against
  holds \<open>a\<close> with usage 2, and a Least-Requested priority that counts the bound tasks
  scores 1, where the empty entry would score 0.
\<close>

theorem nodeOrderFn_unknown_node_counterexample:
  "nodeMap (session_with (weights 1 1 1 1) Map.empty) (Name (node_with ''n1'' [pod_on ''a'' ''n1''])) = None
   \<and> fst (nodeOrderFn reading_priorities (Task (event_for ''t1'' ''n1''))
       (node_with ''n1'' [pod_on ''a'' ''n1'']) (session_with (weights 1 1 1 1) Map.empty)) = (1, None)
   \<and> LeastRequestedPriorityMap reading_priorities (Pod (Task (event_for ''t1'' ''n1'')))
       (SetNode (NewNodeInfo []) (V1Node ''n1'')) = Inr \<lparr>Host = [], Score = 0\<rparr>
   \<and> boundTasks (synthesized (node_with ''n1'' [pod_on ''a'' ''n1''])) = {#(''a'', 2)#}
   \<and> aggregateUsage (synthesized (node_with ''n1'' [pod_on ''a'' ''n1''])) = 2
   \<and> synthesized (node_with ''n1'' [pod_on ''a'' ''n1'']) \<noteq> SetNode (NewNodeInfo []) (V1Node ''n1'')"
  by (simp add: reading_priorities_def session_with_def weights_def node_with_def pod_on_def
      event_for_def synthesized_def SetNode_def NewNodeInfo_def AddPod_def taskRef_def
      nodeOrderFn_def Let_def
      f64_sum_def f64_add_def float64_def round_f64_def round_mag_def)

subsection \<open>The event handlers and the index\<close>

lemma AllocateFunc_unknown:
  assumes "nodeMap c (NodeName (Task event)) = None"
  shows "AllocateFunc event c =
     ([Warningf ''node order, update pod %s/%s allocate to NOT EXIST node [%s]''
         [StrArg (Namespace (Pod (Task event))), StrArg (PodName (Pod (Task event))),
          StrArg (NodeName (Task event))]],
      c\<lparr>pl := (pl c)(UID (Pod (Task event)) := NodeName (Task event))\<rparr>)"
  using assms by (simp add: AllocateFunc_def UpdateTask_def)

lemma DeallocateFunc_unknown:
  assumes "nodeMap c (NodeName (Task event)) = None"
  shows "DeallocateFunc event c =
     ([Warningf ''node order, update pod %s/%s allocate from NOT EXIST node [%s]''
         [StrArg (Namespace (Pod (Task event))), StrArg (PodName (Pod (Task event))),
          StrArg (NodeName (Task event))]],
      c\<lparr>pl := (pl c)(UID (Pod (Task event)) := [])\<rparr>)"
  using assms by (simp add: DeallocateFunc_def UpdateTask_def)

lemma AllocateFunc_known:
  assumes "nodeMap c (NodeName (Task event)) = Some n"
  shows "snd (AllocateFunc event c) =
     c\<lparr>pl := (pl c)(UID (Pod (Task event)) := NodeName (Task event)),
       nodeMap := (nodeMap c)(NodeName (Task event) \<mapsto>
                    AddPod n ((Pod (Task event))\<lparr>Spec_NodeName := NodeName (Task event)\<rparr>))\<rparr>"
  using assms by (simp add: AllocateFunc_def UpdateTask_def Let_def)

lemma DeallocateFunc_known:
  assumes "nodeMap c (NodeName (Task event)) = Some n"
  shows "snd (DeallocateFunc event c) =
     c\<lparr>pl := (pl c)(UID (Pod (Task event)) := []),
       nodeMap := (nodeMap c)(NodeName (Task event) \<mapsto>
                    RemovePod n ((Pod (Task event))\<lparr>Spec_NodeName := []\<rparr>))\<rparr>"
  using assms by (simp add: DeallocateFunc_def UpdateTask_def Let_def)

lemma RemovePod_AddPod:
  assumes "UID q = UID p" "Requests q = Requests p"
  shows "RemovePod (AddPod n p) q = n"
  using assms by (simp add: RemovePod_def AddPod_def taskRef_def)

lemma bindUnbind_nodeMap: "nodeMap (bindUnbind event c) = nodeMap c"
proof (cases "nodeMap c (NodeName (Task event))")
  case None
  then show ?thesis
    by (simp add: bindUnbind_def AllocateFunc_unknown DeallocateFunc_unknown)
next
  case (Some n)
  let ?c1 = "snd (AllocateFunc event c)"
  have 1: "nodeMap ?c1 (NodeName (Task event)) =
      Some (AddPod n ((Pod (Task event))\<lparr>Spec_NodeName := NodeName (Task event)\<rparr>))"
    by (simp add: AllocateFunc_known [OF Some])
  show ?thesis
    unfolding bindUnbind_def DeallocateFunc_known [OF 1]
    by (simp add: AllocateFunc_known [OF Some] RemovePod_AddPod) (rule map_upd_triv, rule Some)
qed

lemma cycles_nodeMap: "nodeMap (foldl (\<lambda>c ev. bindUnbind ev c) c events) = nodeMap c"
  by (induction events arbitrary: c) (simp_all add: bindUnbind_nodeMap)

lemma entry_inv_AddPod: "entry_inv n \<Longrightarrow> entry_inv (AddPod n p)"
  by (simp add: entry_inv_def AddPod_def taskRef_def add.commute)

lemma entry_inv_RemovePod:
  assumes "entry_inv n" "taskRef p \<in># boundTasks n"
  shows "entry_inv (RemovePod n p)"
proof -
  have "sum_mset (image_mset snd (add_mset (taskRef p) (boundTasks n - {#taskRef p#}))) =
        sum_mset (image_mset snd (boundTasks n))"
    using assms(2) by simp
  then have "sum_mset (image_mset snd (boundTasks n - {#taskRef p#})) =
        sum_mset (image_mset snd (boundTasks n)) - Requests p"
    by (simp add: taskRef_def algebra_simps)
  with assms(1) show ?thesis
    by (simp add: entry_inv_def RemovePod_def)
qed

lemma index_inv_upd: "index_inv m \<Longrightarrow> entry_inv v \<Longrightarrow> index_inv (m(k \<mapsto> v))"
  by (auto simp: index_inv_def ran_def split: if_splits)

lemma index_inv_lookup: "index_inv m \<Longrightarrow> m k = Some v \<Longrightarrow> entry_inv v"
  by (auto simp: index_inv_def ran_def)

lemma index_inv_AllocateFunc:
  assumes "index_inv (nodeMap c)"
  shows "index_inv (nodeMap (snd (AllocateFunc event c)))"
proof (cases "nodeMap c (NodeName (Task event))")
  case None
  then show ?thesis using assms by (simp add: AllocateFunc_unknown)
next
  case (Some n)
  then show ?thesis
    using assms
    by (simp add: AllocateFunc_known index_inv_upd entry_inv_AddPod index_inv_lookup [OF assms Some])
qed

lemma index_inv_DeallocateFunc:
  assumes "index_inv (nodeMap c)"
    and "\<And>n. nodeMap c (NodeName (Task event)) = Some n \<Longrightarrow>
           taskRef (Pod (Task event)) \<in># boundTasks n"
  shows "index_inv (nodeMap (snd (DeallocateFunc event c)))"
proof (cases "nodeMap c (NodeName (Task event))")
  case None
  then show ?thesis using assms by (simp add: DeallocateFunc_unknown)
next
  case (Some n)
  have "taskRef ((Pod (Task event))\<lparr>Spec_NodeName := []\<rparr>) \<in># boundTasks n"
    using assms(2) [OF Some] by (simp add: taskRef_def)
  then have "entry_inv (RemovePod n ((Pod (Task event))\<lparr>Spec_NodeName := []\<rparr>))"
    by (intro entry_inv_RemovePod index_inv_lookup [OF assms(1) Some])
  then show ?thesis
    using assms(1) by (simp add: DeallocateFunc_known [OF Some] index_inv_upd)
qed

lemma NewNodeInfo_inv: "entry_inv (NewNodeInfo pods)"
proof -
  have "sum_mset (image_mset snd (image_mset taskRef (mset pods))) = sum_list (map Requests pods)"
    by (induction pods) (simp_all add: taskRef_def)
  then show ?thesis
    by (simp add: entry_inv_def NewNodeInfo_def NewNodeInfo_fold)
qed

text \<open>
  C6, as the code has it. For every allocate or deallocate event whose target node is
  not in \<open>nodeMap\<close>, the handler logs a warning and leaves the index unchanged. The
  task placement view is updated all the same, since \<open>pl.UpdateTask\<close> runs before the
  lookup: the allocate handler records the event's node for the task and the
  deallocate handler clears the task's node.
\<close>

theorem handlers_unknown_node:
  "nodeMap c (NodeName (Task event)) = None \<longrightarrow>
     AllocateFunc event c =
       ([Warningf ''node order, update pod %s/%s allocate to NOT EXIST node [%s]''
           [StrArg (Namespace (Pod (Task event))), StrArg (PodName (Pod (Task event))),
            StrArg (NodeName (Task event))]],
        c\<lparr>pl := (pl c)(UID (Pod (Task event)) := NodeName (Task event))\<rparr>) \<and>
     DeallocateFunc event c =
       ([Warningf ''node order, update pod %s/%s allocate from NOT EXIST node [%s]''
           [StrArg (Namespace (Pod (Task event))), StrArg (PodName (Pod (Task event))),
            StrArg (NodeName (Task event))]],
        c\<lparr>pl := (pl c)(UID (Pod (Task event)) := [])\<rparr>) \<and>
     nodeMap (snd (AllocateFunc event c)) = nodeMap c \<and>
     nodeMap (snd (DeallocateFunc event c)) = nodeMap c"
  by (simp add: AllocateFunc_unknown DeallocateFunc_unknown)

theorem handlers_unknown_node_witness:
  "AllocateFunc (event_for ''t1'' ''ghost'') (session_with (weights 1 1 1 1) Map.empty) =
     ([Warningf ''node order, update pod %s/%s allocate to NOT EXIST node [%s]''
         [StrArg ''default'', StrArg ''t1'', StrArg ''ghost'']],
      (session_with (weights 1 1 1 1) Map.empty)\<lparr>pl := (\<lambda>uid. [])(''t1'' := ''ghost'')\<rparr>)
   \<and> nodeMap (snd (DeallocateFunc (event_for ''t1'' ''ghost'')
         (session_with (weights 1 1 1 1) Map.empty))) = Map.empty"
  using handlers_unknown_node [of "session_with (weights 1 1 1 1) Map.empty"
      "event_for ''t1'' ''ghost''"]
  by (simp add: session_with_def event_for_def pod_on_def)

text \<open>
  The claim as stated, that such an event changes no state a later scoring call sees,
  fails: the allocate event of task \<open>t1\<close> on the unknown node \<open>ghost\<close> changes the
  lister's placement of \<open>t1\<close>, the lister is an argument of the inter-pod-affinity
  priority, and with a priority that reads it the score of the same (task, node) pair
  is 0 before the event and 1 after it.
\<close>

theorem handlers_unknown_node_counterexample:
  "nodeMap (session_with (weights 1 1 1 1) Map.empty) (NodeName (Task (event_for ''t1'' ''ghost''))) = None
   \<and> pl (session_with (weights 1 1 1 1) Map.empty) ''t1'' = []
   \<and> pl (snd (AllocateFunc (event_for ''t1'' ''ghost'')
        (session_with (weights 1 1 1 1) Map.empty))) ''t1'' = ''ghost''
   \<and> fst (nodeOrderFn reading_priorities (Task (event_for ''t2'' ''n1'')) (node_with ''n1'' [])
        (session_with (weights 1 1 1 1) Map.empty)) = (0, None)
   \<and> fst (nodeOrderFn reading_priorities (Task (event_for ''t2'' ''n1'')) (node_with ''n1'' [])
        (snd (AllocateFunc (event_for ''t1'' ''ghost'')
           (session_with (weights 1 1 1 1) Map.empty)))) = (1, None)"
  by (simp add: reading_priorities_def session_with_def weights_def node_with_def pod_on_def
      event_for_def SetNode_def NewNodeInfo_def AllocateFunc_def UpdateTask_def
      nodeOrderFn_def Let_def
      f64_add_def float64_def round_f64_def round_mag_def)

text \<open>
  C7. For every task and every node known to the index, the allocate handler adds
  exactly the task's request to the node's usage (and the task to its bound tasks),
  and the matching deallocate handler restores the node's entry exactly; a bind/unbind
  cycle, and any number of them for any tasks, leaves the whole index as it was. The
  invariant that every entry's usage is the sum of the requests of its bound tasks is
  kept by the allocate handler, by any number of cycles, and by the deallocate handler
  for a task bound in the entry of its node.
\<close>

theorem handlers_bind_unbind:
  "(nodeMap c (NodeName (Task event)) = Some n \<longrightarrow>
      (\<exists>n'. nodeMap (snd (AllocateFunc event c)) (NodeName (Task event)) = Some n' \<and>
            aggregateUsage n' = aggregateUsage n + Requests (Pod (Task event)) \<and>
            boundTasks n' = add_mset (taskRef (Pod (Task event))) (boundTasks n) \<and>
            nodeRef n' = nodeRef n) \<and>
      nodeMap (snd (DeallocateFunc event (snd (AllocateFunc event c)))) (NodeName (Task event))
        = Some n) \<and>
   nodeMap (bindUnbind event c) = nodeMap c \<and>
   nodeMap (foldl (\<lambda>c ev. bindUnbind ev c) c events) = nodeMap c \<and>
   (index_inv (nodeMap c) \<longrightarrow>
      index_inv (nodeMap (snd (AllocateFunc event c))) \<and>
      index_inv (nodeMap (bindUnbind event c)) \<and>
      index_inv (nodeMap (foldl (\<lambda>c ev. bindUnbind ev c) c events))) \<and>
   (index_inv (nodeMap c) \<and>
    (\<forall>m. nodeMap c (NodeName (Task event)) = Some m \<longrightarrow>
           taskRef (Pod (Task event)) \<in># boundTasks m) \<longrightarrow>
      index_inv (nodeMap (snd (DeallocateFunc event c))))"
proof -
  have a: "\<exists>n'. nodeMap (snd (AllocateFunc event c)) (NodeName (Task event)) = Some n' \<and>
            aggregateUsage n' = aggregateUsage n + Requests (Pod (Task event)) \<and>
            boundTasks n' = add_mset (taskRef (Pod (Task event))) (boundTasks n) \<and>
            nodeRef n' = nodeRef n"
    if "nodeMap c (NodeName (Task event)) = Some n"
    by (simp add: AllocateFunc_known [OF that] AddPod_def taskRef_def)
  have b: "nodeMap (snd (DeallocateFunc event (snd (AllocateFunc event c)))) (NodeName (Task event))
        = Some n"
    if "nodeMap c (NodeName (Task event)) = Some n"
    using bindUnbind_nodeMap [of event c] that by (simp add: bindUnbind_def)
  have d: "index_inv (nodeMap (snd (DeallocateFunc event c)))"
    if "index_inv (nodeMap c) \<and>
        (\<forall>m. nodeMap c (NodeName (Task event)) = Some m \<longrightarrow>
           taskRef (Pod (Task event)) \<in># boundTasks m)"
    using that by (intro index_inv_DeallocateFunc) blast+
  show ?thesis
    using a b d index_inv_AllocateFunc [of c event]
    by (simp add: bindUnbind_nodeMap cycles_nodeMap)
qed

theorem handlers_bind_unbind_witness:
  "nodeMap (snd (AllocateFunc (event_for ''t1'' ''n1'')
       (session_with (weights 1 1 1 1) [''n1'' \<mapsto> NewNodeInfo [pod_on ''a'' ''n1'']]))) ''n1''
     = Some \<lparr>nodeRef = None, boundTasks = {#(''t1'', 2), (''a'', 2)#}, aggregateUsage = 4\<rparr>
   \<and> nodeMap (bindUnbind (event_for ''t1'' ''n1'')
       (session_with (weights 1 1 1 1) [''n1'' \<mapsto> NewNodeInfo [pod_on ''a'' ''n1'']])) ''n1''
     = Some \<lparr>nodeRef = None, boundTasks = {#(''a'', 2)#}, aggregateUsage = 2\<rparr>
   \<and> index_inv (nodeMap (session_with (weights 1 1 1 1) [''n1'' \<mapsto> NewNodeInfo [pod_on ''a'' ''n1'']]))
   \<and> index_inv (nodeMap (snd (AllocateFunc (event_for ''t1'' ''n1'')
       (session_with (weights 1 1 1 1) [''n1'' \<mapsto> NewNodeInfo [pod_on ''a'' ''n1'']]))))"
  using handlers_bind_unbind [of
      "session_with (weights 1 1 1 1) [''n1'' \<mapsto> NewNodeInfo [pod_on ''a'' ''n1'']]"
      "event_for ''t1'' ''n1''" "NewNodeInfo [pod_on ''a'' ''n1'']" "[]"]
  by (simp add: session_with_def event_for_def pod_on_def NewNodeInfo_def AddPod_def RemovePod_def
      taskRef_def AllocateFunc_def DeallocateFunc_def UpdateTask_def bindUnbind_def Let_def
      index_inv_def entry_inv_def)

subsection \<open>Linearity in the weights\<close>

lemma scoredEntry_weight [simp]: "scoredEntry (c\<lparr>weight := w\<rparr>) node = scoredEntry c node"
  by (simp add: scoredEntry_def)

lemma interPodAffinity_weight [simp]:
  "interPodAffinity P task (c\<lparr>weight := w\<rparr>) = interPodAffinity P task c"
  by (simp add: interPodAffinity_def)

text \<open>
  C8, as the code has it. For every weight configuration and every (task, node) pair
  on which scoring succeeds, as long as the four weighted sub-scores, before and after
  the change, have magnitude below \<open>2^51\<close> (so that neither the \<open>int\<close> product wraps
  nor the \<open>float64\<close> sum rounds): replacing the weight of one priority by \<open>k\<close> times
  that weight multiplies that priority's contribution by exactly \<open>k\<close> and changes the
  composite score by exactly \<open>k - 1\<close> times the contribution it had. With
  \<open>leastrequested.weight\<close> 0 the Least-Requested contribution is exactly 0 for every
  raw sub-score, and the score is the sum of the other three terms: this part needs
  no bound.
\<close>

theorem nodeOrderFn_linear_in_range:
  "LeastRequestedPriorityMap P (Pod task) (scoredEntry c node) = Inr h1 \<and>
   BalancedResourceAllocationMap P (Pod task) (scoredEntry c node) = Inr h2 \<and>
   CalculateNodeAffinityPriorityMap P (Pod task) (scoredEntry c node) = Inr h3 \<and>
   interPodAffinity P task c = Inr l \<and>
   raw = rawScore h1 h2 h3 (getInterPodAffinityScore (Name node) l) \<longrightarrow>
     ((\<forall>q. \<bar>sint (raw q) * sint (weightOf q (weight c))\<bar> < 2 ^ 51) \<and>
      sint v = k * sint (weightOf p (weight c)) \<and> \<bar>sint (raw p) * sint v\<bar> < 2 ^ 51 \<longrightarrow>
        float64 (raw p * v) = k * float64 (raw p * weightOf p (weight c)) \<and>
        fst (nodeOrderFn P task node (c\<lparr>weight := setWeight p v (weight c)\<rparr>)) =
          (fst (fst (nodeOrderFn P task node c)) +
             (k - 1) * float64 (raw p * weightOf p (weight c)), None)) \<and>
     (leastReqWeight (weight c) = 0 \<longrightarrow>
        float64 (Score h1 * leastReqWeight (weight c)) = 0 \<and>
        fst (nodeOrderFn P task node c) =
          (f64_sum [float64 (Score h2 * balancedRescourceWeight (weight c)),
                    float64 (Score h3 * nodeAffinityWeight (weight c)),
                    float64 (getInterPodAffinityScore (Name node) l * podAffinityWeight (weight c))],
           None))"
proof (intro impI, elim conjE)
  assume s: "LeastRequestedPriorityMap P (Pod task) (scoredEntry c node) = Inr h1"
    "BalancedResourceAllocationMap P (Pod task) (scoredEntry c node) = Inr h2"
    "CalculateNodeAffinityPriorityMap P (Pod task) (scoredEntry c node) = Inr h3"
    "interPodAffinity P task c = Inr l"
    and raw: "raw = rawScore h1 h2 h3 (getInterPodAffinityScore (Name node) l)"
  let ?c' = "c\<lparr>weight := setWeight p v (weight c)\<rparr>"
  have lin: "float64 (raw p * v) = k * float64 (raw p * weightOf p (weight c)) \<and>
        fst (nodeOrderFn P task node ?c') =
          (fst (fst (nodeOrderFn P task node c)) +
             (k - 1) * float64 (raw p * weightOf p (weight c)), None)"
    if b: "\<forall>q. \<bar>sint (raw q) * sint (weightOf q (weight c))\<bar> < 2 ^ 51"
      and v: "sint v = k * sint (weightOf p (weight c))"
      and bv: "\<bar>sint (raw p) * sint v\<bar> < 2 ^ 51"
  proof -
    have b1: "\<bar>sint (Score h1) * sint (leastReqWeight (weight c))\<bar> < 2 ^ 51"
      using b [rule_format, of LeastRequested] by (simp add: raw rawScore_def weightOf_def)
    have b2: "\<bar>sint (Score h2) * sint (balancedRescourceWeight (weight c))\<bar> < 2 ^ 51"
      using b [rule_format, of BalancedResource] by (simp add: raw rawScore_def weightOf_def)
    have b3: "\<bar>sint (Score h3) * sint (nodeAffinityWeight (weight c))\<bar> < 2 ^ 51"
      using b [rule_format, of NodeAffinity] by (simp add: raw rawScore_def weightOf_def)
    have b4: "\<bar>sint (getInterPodAffinityScore (Name node) l) * sint (podAffinityWeight (weight c))\<bar> < 2 ^ 51"
      using b [rule_format, of InterPodAffinity] by (simp add: raw rawScore_def weightOf_def)
    note before = nodeOrderFn_exact [OF s b1 b2 b3 b4]
    have old: "float64 (raw p * weightOf p (weight c)) = sint (raw p) * sint (weightOf p (weight c))"
      using b by (intro float64_mult_exact) simp
    have new: "float64 (raw p * v) = sint (raw p) * sint v"
      using bv by (intro float64_mult_exact)
    have s': "LeastRequestedPriorityMap P (Pod task) (scoredEntry ?c' node) = Inr h1"
      "BalancedResourceAllocationMap P (Pod task) (scoredEntry ?c' node) = Inr h2"
      "CalculateNodeAffinityPriorityMap P (Pod task) (scoredEntry ?c' node) = Inr h3"
      "interPodAffinity P task ?c' = Inr l"
      using s by simp_all
    have after: "fst (nodeOrderFn P task node ?c') =
      (fst (fst (nodeOrderFn P task node c)) + (k - 1) * (sint (raw p) * sint (weightOf p (weight c))), None)"
    proof (cases p)
      case LeastRequested
      with bv v b2 b3 b4 show ?thesis
        by (subst nodeOrderFn_exact [OF s'])
          (simp_all add: before raw rawScore_def weightOf_def setWeight_def algebra_simps)
    next
      case BalancedResource
      with bv v b1 b3 b4 show ?thesis
        by (subst nodeOrderFn_exact [OF s'])
          (simp_all add: before raw rawScore_def weightOf_def setWeight_def algebra_simps)
    next
      case NodeAffinity
      with bv v b1 b2 b4 show ?thesis
        by (subst nodeOrderFn_exact [OF s'])
          (simp_all add: before raw rawScore_def weightOf_def setWeight_def algebra_simps)
    next
      case InterPodAffinity
      with bv v b1 b2 b3 show ?thesis
        by (subst nodeOrderFn_exact [OF s'])
          (simp_all add: before raw rawScore_def weightOf_def setWeight_def algebra_simps)
    qed
    show ?thesis
      using after by (simp add: old new v)
  qed
  have zero: "float64 (Score h1 * leastReqWeight (weight c)) = 0 \<and>
        fst (nodeOrderFn P task node c) =
          (f64_sum [float64 (Score h2 * balancedRescourceWeight (weight c)),
                    float64 (Score h3 * nodeAffinityWeight (weight c)),
                    float64 (getInterPodAffinityScore (Name node) l * podAffinityWeight (weight c))],
           None)"
    if "leastReqWeight (weight c) = 0"
    using that by (simp add: nodeOrderFn_success [OF s] f64_sum_zero_head)
  from lin zero show "((\<forall>q. \<bar>sint (raw q) * sint (weightOf q (weight c))\<bar> < 2 ^ 51) \<and>
      sint v = k * sint (weightOf p (weight c)) \<and> \<bar>sint (raw p) * sint v\<bar> < 2 ^ 51 \<longrightarrow>
        float64 (raw p * v) = k * float64 (raw p * weightOf p (weight c)) \<and>
        fst (nodeOrderFn P task node (c\<lparr>weight := setWeight p v (weight c)\<rparr>)) =
          (fst (fst (nodeOrderFn P task node c)) +
             (k - 1) * float64 (raw p * weightOf p (weight c)), None)) \<and>
     (leastReqWeight (weight c) = 0 \<longrightarrow>
        float64 (Score h1 * leastReqWeight (weight c)) = 0 \<and>
        fst (nodeOrderFn P task node c) =
          (f64_sum [float64 (Score h2 * balancedRescourceWeight (weight c)),
                    float64 (Score h3 * nodeAffinityWeight (weight c)),
                    float64 (getInterPodAffinityScore (Name node) l * podAffinityWeight (weight c))],
           None))"
    by blast
qed

theorem nodeOrderFn_linear_in_range_witness:
  "fst (nodeOrderFn
          (fixed_priorities (Inr 3) (Inr 5) (Inr 2) (Inr [\<lparr>Host = ''n1'', Score = 4\<rparr>]))
          (Task (event_for ''t1'' ''n1'')) (node_with ''n1'' [])
          (session_with (weights 2 1 3 1) Map.empty)) = (21, None)
   \<and> fst (nodeOrderFn
          (fixed_priorities (Inr 3) (Inr 5) (Inr 2) (Inr [\<lparr>Host = ''n1'', Score = 4\<rparr>]))
          (Task (event_for ''t1'' ''n1'')) (node_with ''n1'' [])
          ((session_with (weights 2 1 3 1) Map.empty)\<lparr>weight := weights 10 1 3 1\<rparr>)) = (21 + (5 - 1) * 6, None)
   \<and> fst (nodeOrderFn
          (fixed_priorities (Inr 3) (Inr 5) (Inr 2) (Inr [\<lparr>Host = ''n1'', Score = 4\<rparr>]))
          (Task (event_for ''t1'' ''n1'')) (node_with ''n1'' [])
          (session_with (weights 0 1 3 1) Map.empty)) = (15, None)"
proof -
  let ?P = "fixed_priorities (Inr 3) (Inr 5) (Inr 2) (Inr [\<lparr>Host = ''n1'', Score = 4\<rparr>])"
  let ?t = "Task (event_for ''t1'' ''n1'')"
  let ?n = "node_with ''n1'' []"
  let ?c = "session_with (weights 2 1 3 1) Map.empty"
  let ?z = "session_with (weights 0 1 3 1) Map.empty"
  let ?raw = "rawScore \<lparr>Host = [], Score = 3\<rparr> \<lparr>Host = [], Score = 5\<rparr> \<lparr>Host = [], Score = 2\<rparr>
                (getInterPodAffinityScore (Name ?n) [\<lparr>Host = ''n1'', Score = 4\<rparr>])"
  have s: "LeastRequestedPriorityMap ?P (Pod ?t) (scoredEntry c ?n) = Inr \<lparr>Host = [], Score = 3\<rparr>"
    "BalancedResourceAllocationMap ?P (Pod ?t) (scoredEntry c ?n) = Inr \<lparr>Host = [], Score = 5\<rparr>"
    "CalculateNodeAffinityPriorityMap ?P (Pod ?t) (scoredEntry c ?n) = Inr \<lparr>Host = [], Score = 2\<rparr>"
    "interPodAffinity ?P ?t c = Inr [\<lparr>Host = ''n1'', Score = 4\<rparr>]" for c
    by (simp_all add: fixed_priorities_def interPodAffinity_def)
  have b: "\<forall>q. \<bar>sint (?raw q) * sint (weightOf q (weight ?c))\<bar> < 2 ^ 51"
  proof
    fix q show "\<bar>sint (?raw q) * sint (weightOf q (weight ?c))\<bar> < 2 ^ 51"
      by (cases q) (simp_all add: rawScore_def weightOf_def session_with_def weights_def node_with_def)
  qed
  have v: "sint (10 :: go_int) = 5 * sint (weightOf LeastRequested (weight ?c))"
    "\<bar>sint (?raw LeastRequested) * sint (10 :: go_int)\<bar> < 2 ^ 51"
    by (simp_all add: rawScore_def weightOf_def session_with_def weights_def)
  have w: "(session_with (weights 2 1 3 1) Map.empty)\<lparr>weight := weights 10 1 3 1\<rparr> =
      ?c\<lparr>weight := setWeight LeastRequested 10 (weight ?c)\<rparr>"
    by (simp add: session_with_def weights_def setWeight_def)
  have c21: "fst (nodeOrderFn ?P ?t ?n ?c) = (21, None)"
    by (subst nodeOrderFn_success [OF s])
      (simp add: session_with_def weights_def node_with_def
        f64_sum_def f64_add_def float64_def round_f64_def round_mag_def)
  have six: "float64 (?raw LeastRequested * weightOf LeastRequested (weight ?c)) = 6"
    by (simp add: rawScore_def weightOf_def session_with_def weights_def
        float64_def round_f64_def round_mag_def)
  have z: "leastReqWeight (weight ?z) = 0"
    by (simp add: session_with_def weights_def)
  from nodeOrderFn_linear_in_range [of ?P ?t ?c ?n _ _ _ _ ?raw 10 5 LeastRequested] s b v
  have "fst (nodeOrderFn ?P ?t ?n (?c\<lparr>weight := setWeight LeastRequested 10 (weight ?c)\<rparr>)) =
          (fst (fst (nodeOrderFn ?P ?t ?n ?c)) +
             (5 - 1) * float64 (?raw LeastRequested * weightOf LeastRequested (weight ?c)), None)"
    by blast
  then have scaled: "fst (nodeOrderFn ?P ?t ?n
      ((session_with (weights 2 1 3 1) Map.empty)\<lparr>weight := weights 10 1 3 1\<rparr>)) = (21 + (5 - 1) * 6, None)"
    unfolding w [symmetric] six c21 by simp
  from nodeOrderFn_linear_in_range [of ?P ?t ?z ?n _ _ _ _ ?raw] s z
  have "fst (nodeOrderFn ?P ?t ?n ?z) =
          (f64_sum [float64 (5 * balancedRescourceWeight (weight ?z)),
                    float64 (2 * nodeAffinityWeight (weight ?z)),
                    float64 (getInterPodAffinityScore (Name ?n) [\<lparr>Host = ''n1'', Score = 4\<rparr>] *
                      podAffinityWeight (weight ?z))], None)"
    by (metis HostPriority.select_convs(2))
  then have zero: "fst (nodeOrderFn ?P ?t ?n ?z) = (15, None)"
    by (simp add: session_with_def weights_def node_with_def
        f64_sum_def f64_add_def float64_def round_f64_def round_mag_def)
  from c21 scaled zero show ?thesis by blast
qed

text \<open>
  The claim as stated, for every weight configuration, fails where the arithmetic
  leaves its exact range. With Least-Requested scoring 10 and the others 0, weight 1
  gives the score 10; the weight \<open>2^60\<close>, which is \<open>2^60\<close> times 1 and a valid \<open>int\<close>,
  gives \<open>-6 * 2^60\<close> and not \<open>10 * 2^60\<close>, because the \<open>int\<close> product wraps. With
  Least-Requested scoring 1, the weight \<open>2^53 + 1\<close> gives \<open>2^53\<close>, because the
  conversion to \<open>float64\<close> rounds.
\<close>

theorem nodeOrderFn_linear_counterexample:
  "fst (nodeOrderFn (fixed_priorities (Inr 10) (Inr 0) (Inr 0) (Inr []))
          (Task (event_for ''t1'' ''n1'')) (node_with ''n1'' [])
          (session_with (weights 1 1 1 1) Map.empty)) = (10, None)
   \<and> sint (2 ^ 60 :: go_int) = 2 ^ 60 * sint (1 :: go_int)
   \<and> fst (nodeOrderFn (fixed_priorities (Inr 10) (Inr 0) (Inr 0) (Inr []))
          (Task (event_for ''t1'' ''n1'')) (node_with ''n1'' [])
          (session_with (weights (2 ^ 60) 1 1 1) Map.empty)) = (- 6 * 2 ^ 60, None)
   \<and> fst (nodeOrderFn (fixed_priorities (Inr 1) (Inr 0) (Inr 0) (Inr []))
          (Task (event_for ''t1'' ''n1'')) (node_with ''n1'' [])
          (session_with (weights 1 1 1 1) Map.empty)) = (1, None)
   \<and> sint (2 ^ 53 + 1 :: go_int) = (2 ^ 53 + 1) * sint (1 :: go_int)
   \<and> fst (nodeOrderFn (fixed_priorities (Inr 1) (Inr 0) (Inr 0) (Inr []))
          (Task (event_for ''t1'' ''n1'')) (node_with ''n1'' [])
          (session_with (weights (2 ^ 53 + 1) 1 1 1) Map.empty)) = (2 ^ 53, None)"
  by (simp add: fixed_priorities_def session_with_def weights_def node_with_def
      nodeOrderFn_def Let_def SetNode_def NewNodeInfo_def
      f64_add_def float64_def round_f64_def round_mag_def compute_floorlog)

end
